theory Spec2Isabelle
  imports Main
begin

section \<open>Values at the JavaScript boundary\<close>

text \<open>
  A field of a request body or of a webhook payload is a string that may be missing:
  \<open>None\<close> is JavaScript's \<open>undefined\<close>, \<open>Some s\<close> the string \<open>s\<close>. The guards of the
  source (\<open>if (x)\<close>, \<open>!x\<close>, \<open>x || y\<close>, \<open>x ? a : b\<close>) test truthiness: \<open>undefined\<close> and
  the empty string are falsy, every other string is truthy.
\<close>

definition truthy :: "string option \<Rightarrow> bool" where
  "truthy v = (case v of None \<Rightarrow> False | Some s \<Rightarrow> s \<noteq> [])"

text \<open>\<open>x || null\<close> on an optional string, as node-postgres binds it (undefined and null are both NULL).\<close>

definition or_null :: "string option \<Rightarrow> string option" where
  "or_null v = (if truthy v then v else None)"

text \<open>
  A JavaScript number that reaches an integer column. \<open>NaN\<close> is a number of its own;
  \<open>0\<close> and \<open>NaN\<close> are the falsy numbers.
\<close>

datatype js_number = Num int | NaN

text \<open>\<open>callDuration || null\<close>: the bound value is NULL or a non-zero integer.\<close>

definition num_or_null :: "js_number option \<Rightarrow> int option" where
  "num_or_null v = (case v of Some (Num n) \<Rightarrow> (if n = 0 then None else Some n) | _ \<Rightarrow> None)"

text \<open>
  \<open>parseInt(s, 10)\<close>: leading white space is skipped, one sign is accepted, the longest
  run of decimal digits is read; no digit gives \<open>NaN\<close>. (White space is the ASCII white
  space; doubles are read as the integers they denote.)
\<close>

definition is_space :: "char \<Rightarrow> bool" where
  "is_space c = (c \<in> set [CHR '' '', CHR 0x09, CHR 0x0A, CHR 0x0B, CHR 0x0C, CHR 0x0D])"

definition is_digit :: "char \<Rightarrow> bool" where
  "is_digit c = (c \<in> set ''0123456789'')"

definition digit_value :: "char \<Rightarrow> int" where
  "digit_value c = int (of_char c) - 48"

definition digits_value :: "string \<Rightarrow> int" where
  "digits_value ds = foldl (\<lambda>acc c. 10 * acc + digit_value c) 0 ds"

definition parse_digits :: "string \<Rightarrow> js_number" where
  "parse_digits s =
     (let ds = takeWhile is_digit s in if ds = [] then NaN else Num (digits_value ds))"

definition parseInt :: "string \<Rightarrow> js_number" where
  "parseInt s =
     (case dropWhile is_space s of
        [] \<Rightarrow> NaN
      | c # cs \<Rightarrow>
          if c = CHR ''-'' then (case parse_digits cs of NaN \<Rightarrow> NaN | Num n \<Rightarrow> Num (- n))
          else if c = CHR ''+'' then parse_digits cs
          else parse_digits (c # cs))"

text \<open>
  \<open>toLowerCase\<close> on the letters \<open>A\<close> to \<open>Z\<close>. No character outside ASCII lower-cases to a
  letter of \<open>assigned\<close>, so the comparisons of the source are decided on these alone.
\<close>

definition lower_char :: "char \<Rightarrow> char" where
  "lower_char c =
     (case map_of (zip ''ABCDEFGHIJKLMNOPQRSTUVWXYZ'' ''abcdefghijklmnopqrstuvwxyz'') c of
        Some l \<Rightarrow> l
      | None \<Rightarrow> c)"

definition toLowerCase :: "string \<Rightarrow> string" where
  "toLowerCase s = map lower_char s"

text \<open>A template literal \<open>${v}\<close> of a nullable column prints \<open>null\<close> for NULL.\<close>

definition template :: "string option \<Rightarrow> string" where
  "template v = (case v of None \<Rightarrow> ''null'' | Some s \<Rightarrow> s)"

text \<open>A thrown JavaScript \<open>Error\<close>, with its message.\<close>

datatype error = Error string

section \<open>The call\_logs table\<close>

text \<open>
  One row of \<open>call_logs\<close>, with the columns the statements of the source name. Every
  column but the key is nullable. The table is keyed by \<open>call_sid\<close> (the conflict
  target of both upserts), so it is a map from \<open>call_sid\<close> to the row.
\<close>

record call_log =
  call_sid :: string
  call_status :: "string option"
  direction :: "string option"
  from_number :: "string option"
  to_number :: "string option"
  call_duration :: "int option"
  recording_url :: "string option"
  participant_sid :: "string option"
  conference_sid :: "string option"
  timestamp :: string

type_synonym call_logs = "string \<rightharpoonup> call_log"

section \<open>The world outside the service\<close>

text \<open>
  A value inside a published payload: a string field that may be undefined, or a row
  object (the lead attached to a notification), or null.
\<close>

datatype js_value = Undefined | Null | Str string | Row "(string \<times> string) list"

definition js :: "string option \<Rightarrow> js_value" where
  "js v = (case v of None \<Rightarrow> Undefined | Some s \<Rightarrow> Str s)"

definition nullable :: "string option \<Rightarrow> js_value" where
  "nullable v = (case v of None \<Rightarrow> Null | Some s \<Rightarrow> Str s)"

text \<open>A message published with \<open>ioServer.emit(channel, payload)\<close>.\<close>

datatype bus_message = Emit (channel: string) (payload: "(string \<times> js_value) list")

text \<open>
  The call resource the provider returns from \<open>calls.create\<close> and
  \<open>calls(sid).fetch()\<close>: its \<open>sid\<close>, \<open>status\<close>, \<open>from\<close> and \<open>to\<close>.
\<close>

record call_instance =
  c_sid :: string
  c_status :: string
  c_from :: string
  c_to :: string

text \<open>Rows of \<open>public.did_numbers\<close>, \<open>public.ring_groups\<close> and \<open>app.combined_leads\<close>.\<close>

record did_number =
  phone_number :: string
  status :: "string option"
  assigned_user :: "string option"

record ring_group_row =
  rg_phone_number :: string
  ring_group :: "string option"
  display_name :: "string option"

type_synonym lead = "(string \<times> string) list"

text \<open>Requests sent to the telephony provider, and lookups sent to the directory stores.\<close>

datatype request =
    PostParticipant string string "(string \<times> string) list"
  | CreateCall string string string
  | UpdateCall string string
  | FetchCall "string option"

datatype lookup = LeadLookup string | UserLookup string | RingGroupLookup string

text \<open>
  What the collaborators answer during one run. A query of a store throws the driver's
  error (\<open>Inl\<close>) or returns its rows; \<open>logs_failure\<close> is the error every statement on
  \<open>call_logs\<close> meets while that store is unreachable. A request to the provider is
  accepted or rejected. \<open>now\<close> is the clock reading of the run (\<open>NOW()\<close>,
  \<open>new Date().toISOString()\<close>).
\<close>

record env =
  now :: string
  logs_failure :: "error option"
  lead_rows :: "string \<Rightarrow> error + lead list"
  did_rows :: "string \<Rightarrow> error + did_number list"
  ring_rows :: "string \<Rightarrow> error + ring_group_row list"
  fetch_call :: "string option \<Rightarrow> error + call_instance"
  create_call :: "string \<Rightarrow> string \<Rightarrow> string \<Rightarrow> call_instance option"
  update_call_ok :: "string \<Rightarrow> string \<Rightarrow> bool"
  post_participant_ok :: "string \<Rightarrow> string \<Rightarrow> (string \<times> string) list \<Rightarrow> bool"

text \<open>
  The state the service acts on: the \<open>call_logs\<close> table, the messages published on the
  event bus (oldest first), the requests issued to the provider and the directory lookups
  issued (oldest first), and the provider's hold flag of each conference participant.
\<close>

record world =
  logs :: call_logs
  emitted :: "bus_message list"
  requests :: "request list"
  lookups :: "lookup list"
  held :: "(string \<times> string) set"

text \<open>Sequencing of awaited calls: the first thrown error ends the sequence, the effects stay.\<close>

definition andThen ::
  "(error + 'a) \<times> world \<Rightarrow> ('a \<Rightarrow> world \<Rightarrow> (error + 'b) \<times> world) \<Rightarrow> (error + 'b) \<times> world" where
  "andThen r f = (case r of (Inl err, w) \<Rightarrow> (Inl err, w) | (Inr x, w) \<Rightarrow> f x w)"

text \<open>\<open>catch (error) { throw new Error(msg) }\<close>\<close>

definition rethrow_as :: "string \<Rightarrow> (error + 'a) \<times> world \<Rightarrow> (error + 'a) \<times> world" where
  "rethrow_as msg r =
     (case r of (Inl err, w) \<Rightarrow> (Inl (Error msg), w) | (Inr x, w) \<Rightarrow> (Inr x, w))"

definition emit :: "string \<Rightarrow> (string \<times> js_value) list \<Rightarrow> world \<Rightarrow> world" where
  "emit chan msg w = w\<lparr>emitted := emitted w @ [Emit chan msg]\<rparr>"

section \<open>Statements on call\_logs\<close>

text \<open>A value bound to a placeholder.\<close>

datatype sql_value = SqlNull | SqlText string | SqlNum js_number

definition bind_text :: "string option \<Rightarrow> sql_value" where
  "bind_text v = (case v of None \<Rightarrow> SqlNull | Some s \<Rightarrow> SqlText s)"

definition bind_int :: "int option \<Rightarrow> sql_value" where
  "bind_int v = (case v of None \<Rightarrow> SqlNull | Some n \<Rightarrow> SqlNum (Num n))"

text \<open>The highest placeholder \<open>$n\<close> of a statement's text: the number of parameters it takes.\<close>

fun max_placeholder :: "string \<Rightarrow> nat" where
  "max_placeholder [] = 0"
| "max_placeholder (c # cs) =
     (if c = CHR ''$''
      then max (nat (digits_value (takeWhile is_digit cs))) (max_placeholder cs)
      else max_placeholder cs)"

text \<open>
  The words of a statement's text, split at white space, and the one parse error that
  matters here: a placeholder directly followed by \<open>name =\<close>, that is, two assignments
  with no comma between them.
\<close>

fun split_words :: "string \<Rightarrow> string \<Rightarrow> string list" where
  "split_words acc [] = (if acc = [] then [] else [rev acc])"
| "split_words acc (c # cs) =
     (if is_space c
      then (if acc = [] then split_words [] cs else rev acc # split_words [] cs)
      else split_words (c # acc) cs)"

definition is_placeholder :: "string \<Rightarrow> bool" where
  "is_placeholder t =
     (case t of [] \<Rightarrow> False | c # ds \<Rightarrow> c = CHR ''$'' \<and> ds \<noteq> [] \<and> list_all is_digit ds)"

fun missing_separator :: "string list \<Rightarrow> bool" where
  "missing_separator (a # b # c # rest) =
     ((is_placeholder a \<and> c = ''='') \<or> missing_separator (b # c # rest))"
| "missing_separator short = False"

text \<open>
  Why the database refuses a statement before running it: its text does not parse, or
  the number of bound values is not the number of parameters of its text.
\<close>

definition refusal :: "string \<Rightarrow> nat \<Rightarrow> error option" where
  "refusal text n =
     (if missing_separator (split_words [] text) then Some (Error ''syntax error'')
      else if max_placeholder text \<noteq> n
      then Some (Error ''bind message supplies the wrong number of parameters'')
      else None)"

text \<open>
  \<open>query(text, values)\<close>: the statement fails with the store's error while the store is
  unreachable, and is refused as above; otherwise it runs. \<open>run\<close> is what the statement
  does to the table, or the error it is rejected with.
\<close>

definition query ::
  "env \<Rightarrow> string \<Rightarrow> sql_value list \<Rightarrow> (call_logs \<Rightarrow> error + 'r \<times> call_logs) \<Rightarrow> call_logs \<Rightarrow>
   error + 'r \<times> call_logs" where
  "query e text vals run tbl =
     (case logs_failure e of
        Some err \<Rightarrow> Inl err
      | None \<Rightarrow>
          (case refusal text (length vals) of
             Some err \<Rightarrow> Inl err
           | None \<Rightarrow> run tbl))"

text \<open>An integer column reads a bound text as a decimal integer, and rejects any other text.\<close>

definition pg_integer :: "string \<Rightarrow> int option" where
  "pg_integer s =
     (let t = dropWhile is_space s;
          neg = (t \<noteq> [] \<and> hd t = CHR ''-'');
          u = (if t \<noteq> [] \<and> (hd t = CHR ''-'' \<or> hd t = CHR ''+'') then tl t else t);
          ds = takeWhile is_digit u;
          trail = dropWhile is_space (dropWhile is_digit u)
      in if ds = [] \<or> trail \<noteq> [] then None
         else Some (if neg then - digits_value ds else digits_value ds))"

section \<open>Call Log Store\<close>

text \<open>
  The statement of \<open>logCallStatus\<close> (white space of the source text contracted): the
  conflict clause sets \<open>recording_url\<close> only when \<open>recordingUrl\<close> is truthy.
\<close>

definition logCallStatus_text :: "bool \<Rightarrow> string" where
  "logCallStatus_text with_recording =
     ''INSERT INTO call_logs ( call_sid, call_status, direction, from_number, to_number, call_duration, recording_url, participant_sid, conference_sid, timestamp ) VALUES ($1, $2, $3, $4, $5, $6, $7, $8, $9, NOW()) ON CONFLICT (call_sid) DO UPDATE SET call_status = EXCLUDED.call_status, call_duration = EXCLUDED.call_duration, participant_sid = EXCLUDED.participant_sid, conference_sid = EXCLUDED.conference_sid, timestamp = EXCLUDED.timestamp ''
     @ (if with_recording then '', recording_url = EXCLUDED.recording_url'' else [])
     @ '' ;''"

text \<open>
  What that statement does: insert the row; on a conflict on \<open>call_sid\<close> set
  \<open>call_status\<close>, \<open>call_duration\<close>, \<open>participant_sid\<close>, \<open>conference_sid\<close> and
  \<open>timestamp\<close> from the excluded row, and \<open>recording_url\<close> only when the clause was
  spliced into the text (\<open>with_recording\<close>).
\<close>

definition upsert_call_log :: "bool \<Rightarrow> call_log \<Rightarrow> call_logs \<Rightarrow> call_logs" where
  "upsert_call_log with_recording excluded tbl =
     (case tbl (call_sid excluded) of
        None \<Rightarrow> tbl(call_sid excluded \<mapsto> excluded)
      | Some old \<Rightarrow>
          tbl(call_sid excluded \<mapsto>
            old\<lparr>call_status := call_status excluded,
                call_duration := call_duration excluded,
                participant_sid := participant_sid excluded,
                conference_sid := conference_sid excluded,
                timestamp := timestamp excluded,
                recording_url :=
                  (if with_recording then recording_url excluded else recording_url old)\<rparr>))"

text \<open>
  \<open>logCallStatus\<close>: one upsert, then one message on \<open>outbound-call-status\<close>. A failing
  query is rethrown as \<open>Failed to insert call log into database\<close>, before anything is
  published. The statement has no RETURNING clause, so \<open>result.rows[0]\<close> is undefined.
\<close>

definition logCallStatus ::
  "env \<Rightarrow> string \<Rightarrow> string \<Rightarrow> string \<Rightarrow> string \<Rightarrow> string \<Rightarrow> js_number option \<Rightarrow>
   string option \<Rightarrow> string option \<Rightarrow> string option \<Rightarrow> world \<Rightarrow> (error + unit) \<times> world" where
  "logCallStatus e callSid callStatus dir from_n to_n callDuration recordingUrl
     partSid confSid w =
     (let queryText = logCallStatus_text (truthy recordingUrl);
          vals = [SqlText callSid, SqlText callStatus, SqlText dir, SqlText from_n,
                  SqlText to_n, bind_int (num_or_null callDuration),
                  bind_text (or_null recordingUrl), bind_text (or_null partSid),
                  bind_text (or_null confSid)];
          excluded = \<lparr>call_sid = callSid,
                      call_status = Some callStatus,
                      direction = Some dir,
                      from_number = Some from_n,
                      to_number = Some to_n,
                      call_duration = num_or_null callDuration,
                      recording_url = or_null recordingUrl,
                      participant_sid = or_null partSid,
                      conference_sid = or_null confSid,
                      timestamp = now e\<rparr>
      in case query e queryText vals
                (\<lambda>tbl. Inr ((), upsert_call_log (truthy recordingUrl) excluded tbl)) (logs w) of
           Inl err \<Rightarrow> (Inl (Error ''Failed to insert call log into database''), w)
         | Inr (u, tbl) \<Rightarrow>
             (Inr (),
              emit ''outbound-call-status''
                [(''callSid'', Str callSid), (''status'', Str callStatus),
                 (''from'', Str from_n), (''to'', Str to_n)]
                (w\<lparr>logs := tbl\<rparr>)))"

text \<open>
  A webhook payload: the fields the handlers destructure. \<open>callStatusUpdate\<close> and
  \<open>handleVoiceStatusCallback\<close> read the same names from their argument.
\<close>

record webhook_payload =
  CallSid :: "string option"
  ConferenceSid :: "string option"
  From :: "string option"
  To :: "string option"
  Timestamp :: "string option"
  CallStatus :: "string option"
  Direction :: "string option"
  StatusCallbackEvent :: "string option"
  ReasonConferenceEnded :: "string option"
  CallSidEndingConference :: "string option"
  RecordingUrl :: "string option"
  CallDuration :: "string option"
  participantSid :: "string option"

definition callStatusUpdate_text :: string where
  "callStatusUpdate_text =
     ''INSERT INTO public.call_logs ( call_sid, call_status, timestamp, direction, from_number, to_number, call_duration, recording_url ) VALUES ($1, $2, $3, $4, $5, $6, $7, $8) ON CONFLICT (call_sid) DO UPDATE SET call_status = EXCLUDED.call_status, timestamp = EXCLUDED.timestamp, call_duration = EXCLUDED.call_duration, recording_url = EXCLUDED.recording_url RETURNING *;''"

text \<open>
  What the statement of \<open>callStatusUpdate\<close> does: insert the row; on a conflict on
  \<open>call_sid\<close> set \<open>call_status\<close>, \<open>timestamp\<close>, \<open>call_duration\<close> and \<open>recording_url\<close>
  from the excluded row, unconditionally; return the stored row.
\<close>

definition upsert_status_update :: "call_log \<Rightarrow> call_logs \<Rightarrow> call_log \<times> call_logs" where
  "upsert_status_update excluded tbl =
     (let stored =
            (case tbl (call_sid excluded) of
               None \<Rightarrow> excluded
             | Some old \<Rightarrow>
                 old\<lparr>call_status := call_status excluded,
                     timestamp := timestamp excluded,
                     call_duration := call_duration excluded,
                     recording_url := recording_url excluded\<rparr>)
      in (stored, tbl(call_sid excluded \<mapsto> stored)))"

text \<open>
  \<open>callStatusUpdate\<close>: the bound values are the payload's fields as they are (an
  undefined field is bound as NULL), but \<open>Timestamp || new Date().toISOString()\<close> and
  \<open>CallDuration ? parseInt(CallDuration, 10) : null\<close>. The database rejects a NULL key
  and a \<open>NaN\<close> duration (the column holds integers); a timestamp is kept as the text that
  was bound. Every failure is rethrown as \<open>Failed to insert call log into database\<close>.
\<close>

definition callStatusUpdate :: "env \<Rightarrow> webhook_payload \<Rightarrow> world \<Rightarrow> (error + call_log) \<times> world" where
  "callStatusUpdate e d w =
     (let stamp = (case Timestamp d of
                     None \<Rightarrow> now e
                   | Some t \<Rightarrow> if t = [] then now e else t);
          duration = (case CallDuration d of
                        None \<Rightarrow> SqlNull
                      | Some s \<Rightarrow> if s = [] then SqlNull else SqlNum (parseInt s));
          vals = [bind_text (CallSid d), bind_text (CallStatus d), SqlText stamp,
                  bind_text (Direction d), bind_text (From d), bind_text (To d),
                  duration, bind_text (RecordingUrl d)]
      in case query e callStatusUpdate_text vals
                (\<lambda>tbl. case (CallSid d, duration) of
                          (None, dur) \<Rightarrow> Inl (Error ''null value in column call_sid'')
                        | (Some k, SqlNum NaN) \<Rightarrow>
                            Inl (Error ''invalid input syntax for type integer'')
                        | (Some k, dur) \<Rightarrow>
                            Inr (upsert_status_update
                                   \<lparr>call_sid = k,
                                    call_status = CallStatus d,
                                    direction = Direction d,
                                    from_number = From d,
                                    to_number = To d,
                                    call_duration =
                                      (case dur of SqlNum (Num n) \<Rightarrow> Some n | _ \<Rightarrow> None),
                                    recording_url = RecordingUrl d,
                                    participant_sid = None,
                                    conference_sid = None,
                                    timestamp = stamp\<rparr> tbl))
                (logs w) of
           Inl err \<Rightarrow> (Inl (Error ''Failed to insert call log into database''), w)
         | Inr (stored, tbl) \<Rightarrow> (Inr stored, w\<lparr>logs := tbl\<rparr>))"

subsection \<open>handleVoiceStatusCallback\<close>

text \<open>The three statements of \<open>handleVoiceStatusCallback\<close> (white space contracted).\<close>

definition voice_select_text :: string where
  "voice_select_text = ''SELECT * FROM call_logs WHERE call_sid = $1''"

definition voice_update_text :: string where
  "voice_update_text =
     ''UPDATE call_logs SET call_status = $1, call_duration = $2, recording_url = $3, participant_sid = $4, recording_Url = $5 timestamp = NOW() WHERE call_sid = $6 ''"

definition voice_insert_text :: string where
  "voice_insert_text =
     ''INSERT INTO call_logs (call_sid, call_status, from_number, to_number, call_duration, recording_url, participant_sid, timestamp) VALUES ($1, $2, $3, $4, $5, $6, $7, NOW()) ''"

text \<open>The rows with the given key: none for a NULL key, at most one otherwise.\<close>

definition select_by_call_sid :: "string option \<Rightarrow> call_logs \<Rightarrow> call_log list" where
  "select_by_call_sid k tbl =
     (case k of
        None \<Rightarrow> []
      | Some sid \<Rightarrow> (case tbl sid of None \<Rightarrow> [] | Some r \<Rightarrow> [r]))"

text \<open>
  The plain INSERT: a NULL key, a key already stored and a duration that is not an
  integer are rejected; the columns the statement does not name are NULL.
\<close>

definition voice_insert :: "env \<Rightarrow> webhook_payload \<Rightarrow> call_logs \<Rightarrow> error + unit \<times> call_logs" where
  "voice_insert e p tbl =
     (case CallSid p of
        None \<Rightarrow> Inl (Error ''null value in column call_sid'')
      | Some k \<Rightarrow>
          (case tbl k of
             Some old \<Rightarrow> Inl (Error ''duplicate key value violates unique constraint'')
           | None \<Rightarrow>
               (case map_option pg_integer (CallDuration p) of
                  Some None \<Rightarrow> Inl (Error ''invalid input syntax for type integer'')
                | dur \<Rightarrow>
                    Inr ((), tbl(k \<mapsto>
                      \<lparr>call_sid = k,
                       call_status = CallStatus p,
                       direction = None,
                       from_number = From p,
                       to_number = To p,
                       call_duration = (case dur of Some (Some n) \<Rightarrow> Some n | _ \<Rightarrow> None),
                       recording_url = RecordingUrl p,
                       participant_sid = participantSid p,
                       conference_sid = None,
                       timestamp = now e\<rparr>)))))"

text \<open>
  \<open>handleVoiceStatusCallback\<close>: look the row up; update it when it exists, insert it
  otherwise; rethrow whatever a query throws. The UPDATE is sent with the four values
  \<open>[CallStatus, CallDuration, participantSid, CallSid]\<close>. Its text has no comma between
  \<open>recording_Url = $5\<close> and \<open>timestamp = NOW()\<close>, and it assigns \<open>recording_url\<close> twice
  (column names are case-insensitive): no table change is its meaning, and were it ever
  run it would be rejected for the double assignment.
\<close>

definition handleVoiceStatusCallback :: "env \<Rightarrow> webhook_payload \<Rightarrow> world \<Rightarrow> (error + unit) \<times> world" where
  "handleVoiceStatusCallback e p w =
     (case query e voice_select_text [bind_text (CallSid p)]
             (\<lambda>tbl. Inr (select_by_call_sid (CallSid p) tbl, tbl)) (logs w) of
        Inl err \<Rightarrow> (Inl err, w)
      | Inr (existingCallLog, tbl0) \<Rightarrow>
          if length existingCallLog > 0 then
            (case query e voice_update_text
                    [bind_text (CallStatus p), bind_text (CallDuration p),
                     bind_text (participantSid p), bind_text (CallSid p)]
                    (\<lambda>tbl. Inl (Error ''multiple assignments to same column'')) tbl0 of
               Inl err \<Rightarrow> (Inl err, w)
             | Inr (u :: unit, tbl) \<Rightarrow> (Inr (), w\<lparr>logs := tbl\<rparr>))
          else
            (case query e voice_insert_text
                    [bind_text (CallSid p), bind_text (CallStatus p), bind_text (From p),
                     bind_text (To p), bind_text (CallDuration p),
                     bind_text (RecordingUrl p), bind_text (participantSid p)]
                    (voice_insert e p) tbl0 of
               Inl err \<Rightarrow> (Inl err, w)
             | Inr (u, tbl) \<Rightarrow> (Inr (), w\<lparr>logs := tbl\<rparr>)))"

section \<open>Directory Resolver\<close>

text \<open>
  \<open>findLeadByPhoneNumber\<close>: \<open>result.rows[0] || null\<close>; an error of the query is not
  caught here.
\<close>

definition findLeadByPhoneNumber :: "env \<Rightarrow> string \<Rightarrow> world \<Rightarrow> (error + lead option) \<times> world" where
  "findLeadByPhoneNumber e phoneNumber w =
     (let w' = w\<lparr>lookups := lookups w @ [LeadLookup phoneNumber]\<rparr>
      in case lead_rows e phoneNumber of
           Inl err \<Rightarrow> (Inl err, w')
         | Inr rows \<Rightarrow> (Inr (case rows of [] \<Rightarrow> None | r # rest \<Rightarrow> Some r), w'))"

text \<open>
  \<open>findUserByPhoneNumber\<close>: null when no row, the first row otherwise; an error of the
  query is rethrown as \<open>Failed to find user by phone number\<close>.
\<close>

definition findUserByPhoneNumber :: "env \<Rightarrow> string \<Rightarrow> world \<Rightarrow> (error + did_number option) \<times> world" where
  "findUserByPhoneNumber e phoneNumber w =
     (let w' = w\<lparr>lookups := lookups w @ [UserLookup phoneNumber]\<rparr>
      in case did_rows e phoneNumber of
           Inl err \<Rightarrow> (Inl (Error ''Failed to find user by phone number''), w')
         | Inr rows \<Rightarrow> (Inr (case rows of [] \<Rightarrow> None | r # rest \<Rightarrow> Some r), w'))"

text \<open>\<open>findRingGroupByPhoneNumber\<close>: as above, but an error of the query is not caught here.\<close>

definition findRingGroupByPhoneNumber ::
  "env \<Rightarrow> string \<Rightarrow> world \<Rightarrow> (error + ring_group_row option) \<times> world" where
  "findRingGroupByPhoneNumber e phoneNumber w =
     (let w' = w\<lparr>lookups := lookups w @ [RingGroupLookup phoneNumber]\<rparr>
      in case ring_rows e phoneNumber of
           Inl err \<Rightarrow> (Inl err, w')
         | Inr rows \<Rightarrow> (Inr (case rows of [] \<Rightarrow> None | r # rest \<Rightarrow> Some r), w'))"

text \<open>
  The test \<open>user && user.status.toLowerCase() === "assigned"\<close>. A row whose \<open>status\<close> is
  NULL makes \<open>toLowerCase\<close> throw a TypeError.
\<close>

definition user_assigned :: "did_number option \<Rightarrow> error + did_number option" where
  "user_assigned user =
     (case user of
        None \<Rightarrow> Inr None
      | Some u \<Rightarrow>
          (case status u of
             None \<Rightarrow> Inl (Error ''Cannot read properties of null (reading toLowerCase)'')
           | Some s \<Rightarrow> Inr (if toLowerCase s = ''assigned'' then Some u else None)))"

section \<open>Event routing: incomingCallNotification\<close>

text \<open>The string of a truthy field; also the default of \<open>To = ""\<close> in the destructuring.\<close>

definition or_empty :: "string option \<Rightarrow> string" where
  "or_empty v = (case v of None \<Rightarrow> [] | Some s \<Rightarrow> s)"

definition lead_data :: "lead option \<Rightarrow> js_value" where
  "lead_data l = (case l of None \<Rightarrow> Null | Some r \<Rightarrow> Row r)"

text \<open>
  The \<open>participant-join\<close> case: fetch the call, log it (which publishes on
  \<open>outbound-call-status\<close>), look the lead up by the caller's number, then route by the
  callee's number: the assigned user first, the ring group only in the else branch, and
  \<open>incoming-call\<close> when neither is found.
\<close>

definition participant_join :: "env \<Rightarrow> webhook_payload \<Rightarrow> world \<Rightarrow> (error + unit) \<times> world" where
  "participant_join e input w =
     andThen
       (case fetch_call e (CallSid input) of
          Inl err \<Rightarrow> (Inl err, w\<lparr>requests := requests w @ [FetchCall (CallSid input)]\<rparr>)
        | Inr r \<Rightarrow> (Inr r, w\<lparr>requests := requests w @ [FetchCall (CallSid input)]\<rparr>))
       (\<lambda>participantResponse w1.
     andThen
       (logCallStatus e (c_sid participantResponse) (c_status participantResponse)
          ''inbound'' (c_from participantResponse) (c_to participantResponse)
          None None None (ConferenceSid input) w1)
       (\<lambda>logged w2.
     andThen (findLeadByPhoneNumber e (c_from participantResponse) w2)
       (\<lambda>existingLead w3.
     andThen (findUserByPhoneNumber e (c_to participantResponse) w3)
       (\<lambda>user w4.
          case user_assigned user of
            Inl err \<Rightarrow> (Inl err, w4)
          | Inr (Some u) \<Rightarrow>
              (Inr (),
               emit (''user-notification-'' @ template (assigned_user u))
                 [(''conferenceSid'', js (ConferenceSid input)),
                  (''callSid'', js (CallSid input)),
                  (''from'', Str (c_from participantResponse)),
                  (''to'', Str (or_empty (To input))),
                  (''leadData'', lead_data existingLead)] w4)
          | Inr None \<Rightarrow>
              andThen (findRingGroupByPhoneNumber e (c_to participantResponse) w4)
                (\<lambda>ringGroup w5.
                   case ringGroup of
                     Some g \<Rightarrow>
                       (Inr (),
                        emit ''ring-group-notification''
                          [(''conferenceSid'', js (ConferenceSid input)),
                           (''callSid'', js (CallSid input)),
                           (''from'', Str (c_from participantResponse)),
                           (''to'', Str (or_empty (To input))),
                           (''source'', nullable (display_name g)),
                           (''leadData'', lead_data existingLead)] w5)
                   | None \<Rightarrow>
                       (Inr (),
                        emit ''incoming-call''
                          [(''conferenceSid'', js (ConferenceSid input)),
                           (''callSid'', js (CallSid input)),
                           (''from'', Str (c_from participantResponse)),
                           (''leadData'', lead_data existingLead)] w5))))))"

text \<open>
  The \<open>CallStatus\<close> branch: nothing for \<open>completed\<close>; otherwise look the callee up and
  publish on the user's channel or on \<open>call-status-update\<close>. No ring group is consulted.
\<close>

definition status_update_branch :: "env \<Rightarrow> webhook_payload \<Rightarrow> world \<Rightarrow> (error + unit) \<times> world" where
  "status_update_branch e input w =
     (if or_empty (CallStatus input) \<noteq> ''completed'' then
        andThen (findUserByPhoneNumber e (or_empty (To input)) w)
          (\<lambda>user w1.
             case user_assigned user of
               Inl err \<Rightarrow> (Inl err, w1)
             | Inr (Some u) \<Rightarrow>
                 (Inr (),
                  emit (''user-call-status-'' @ template (assigned_user u))
                    [(''callSid'', js (CallSid input)),
                     (''callStatus'', js (CallStatus input)),
                     (''from'', js (From input)),
                     (''to'', Str (or_empty (To input))),
                     (''timestamp'', js (Timestamp input))] w1)
             | Inr None \<Rightarrow>
                 (Inr (),
                  emit ''call-status-update''
                    [(''callSid'', js (CallSid input)),
                     (''callStatus'', js (CallStatus input)),
                     (''from'', js (From input)),
                     (''to'', Str (or_empty (To input))),
                     (''timestamp'', js (Timestamp input))] w1))
      else (Inr (), w))"

text \<open>
  \<open>incomingCallNotification\<close>: \<open>if (StatusCallbackEvent)\<close> switches on the event name;
  \<open>else if (CallStatus)\<close> handles a status update; anything else is logged and dropped.
  Whatever is thrown inside is rethrown as \<open>Error receiving webhook data\<close>.
\<close>

definition incomingCallNotification :: "env \<Rightarrow> webhook_payload \<Rightarrow> world \<Rightarrow> (error + unit) \<times> world" where
  "incomingCallNotification e input w =
     rethrow_as ''Error receiving webhook data''
       (if truthy (StatusCallbackEvent input) then
          (if or_empty (StatusCallbackEvent input) = ''participant-join'' then
             participant_join e input w
           else if or_empty (StatusCallbackEvent input) = ''participant-leave'' then
             (Inr (),
              emit ''participant-leave''
                [(''conferenceSid'', js (ConferenceSid input)),
                 (''callSid'', js (CallSid input)),
                 (''from'', js (From input)),
                 (''to'', js (To input))] w)
           else if or_empty (StatusCallbackEvent input) = ''conference-end'' then
             (Inr (),
              emit ''conference-end''
                [(''conferenceSid'', js (ConferenceSid input)),
                 (''reason'', js (ReasonConferenceEnded input)),
                 (''callSidEndingConference'', js (CallSidEndingConference input))] w)
           else (Inr (), w))
        else if truthy (CallStatus input) then status_update_branch e input w
        else (Inr (), w))"

section \<open>Transfer Orchestrator\<close>

text \<open>\<open>catch (error) { throw new Error(`prefix${error.message}`) }\<close>\<close>

definition rethrow_prefixed :: "string \<Rightarrow> (error + 'a) \<times> world \<Rightarrow> (error + 'a) \<times> world" where
  "rethrow_prefixed prefix r =
     (case r of
        (Inl (Error m), w) \<Rightarrow> (Inl (Error (prefix @ m)), w)
      | (Inr x, w) \<Rightarrow> (Inr x, w))"

text \<open>
  What an accepted participant update does at the provider: \<open>Hold=true\<close> sets the hold
  flag of that participant of that conference, \<open>Hold=false\<close> clears it.
\<close>

definition apply_participant_update ::
  "string \<Rightarrow> string \<Rightarrow> (string \<times> string) list \<Rightarrow> (string \<times> string) set \<Rightarrow> (string \<times> string) set" where
  "apply_participant_update conf call_id fields_posted h =
     (case map_of fields_posted ''Hold'' of
        None \<Rightarrow> h
      | Some v \<Rightarrow>
          if v = ''true'' then insert (conf, call_id) h
          else if v = ''false'' then h - {(conf, call_id)}
          else h)"

text \<open>
  \<open>updateParticipant\<close>: one POST to the participant resource; a rejected request is
  rethrown as \<open>Failed to update participant\<close>.
\<close>

definition updateParticipant ::
  "env \<Rightarrow> string \<Rightarrow> string \<Rightarrow> (string \<times> string) list \<Rightarrow> world \<Rightarrow> (error + unit) \<times> world" where
  "updateParticipant e conf call_id fields_posted w =
     (let w' = w\<lparr>requests := requests w @ [PostParticipant conf call_id fields_posted]\<rparr>
      in if post_participant_ok e conf call_id fields_posted
         then (Inr (), w'\<lparr>held := apply_participant_update conf call_id fields_posted (held w')\<rparr>)
         else (Inl (Error ''Failed to update participant''), w'))"

definition holdOriginalParticipant :: "env \<Rightarrow> string \<Rightarrow> string \<Rightarrow> world \<Rightarrow> (error + unit) \<times> world" where
  "holdOriginalParticipant e conf call_id w =
     rethrow_prefixed ''Failed to hold original participant: ''
       (updateParticipant e conf call_id [(''Hold'', ''true'')] w)"

definition unholdOriginalParticipant :: "env \<Rightarrow> string \<Rightarrow> string \<Rightarrow> world \<Rightarrow> (error + unit) \<times> world" where
  "unholdOriginalParticipant e conf call_id w =
     rethrow_prefixed ''Failed to unhold original participant: ''
       (updateParticipant e conf call_id [(''Hold'', ''false'')] w)"

text \<open>
  \<open>dial\<close>: create the call, then log its initial status; a failure of either is rethrown
  as \<open>Failed to initiate call\<close>. The created call is returned.
\<close>

definition dial :: "env \<Rightarrow> string \<Rightarrow> string \<Rightarrow> string \<Rightarrow> world \<Rightarrow> (error + call_instance) \<times> world" where
  "dial e from_n to_n url w =
     rethrow_as ''Failed to initiate call''
       (andThen
          (case create_call e from_n to_n url of
             None \<Rightarrow> (Inl (Error ''calls.create rejected''),
                       w\<lparr>requests := requests w @ [CreateCall from_n to_n url]\<rparr>)
           | Some response \<Rightarrow> (Inr response,
                       w\<lparr>requests := requests w @ [CreateCall from_n to_n url]\<rparr>))
          (\<lambda>response w1.
             andThen
               (logCallStatus e (c_sid response) (c_status response) ''outbound'' from_n to_n
                  None None None None w1)
               (\<lambda>logged w2. (Inr response, w2))))"

text \<open>\<open>createConsultationCall\<close> returns \<open>consultCallSid: newCall.callSid\<close>.\<close>

definition createConsultationCall ::
  "env \<Rightarrow> string \<Rightarrow> string \<Rightarrow> string \<Rightarrow> world \<Rightarrow> (error + string) \<times> world" where
  "createConsultationCall e fromNumber consultNumber url w =
     rethrow_prefixed ''Failed to create consultation call: ''
       (andThen (dial e fromNumber consultNumber url w)
          (\<lambda>newCall w1. (Inr (c_sid newCall), w1)))"

text \<open>
  \<open>addParticipantToConference\<close>: \<open>calls(callSid).update({ url: lamlBinUrl, ... })\<close>; a
  rejected request is rethrown as \<open>Failed to add participant\<close>.
\<close>

definition addParticipantToConference :: "env \<Rightarrow> string \<Rightarrow> string \<Rightarrow> world \<Rightarrow> (error + unit) \<times> world" where
  "addParticipantToConference e call_id lamlBinUrl w =
     (let w' = w\<lparr>requests := requests w @ [UpdateCall call_id lamlBinUrl]\<rparr>
      in if update_call_ok e call_id lamlBinUrl then (Inr (), w')
         else (Inl (Error ''Failed to add participant''), w'))"

definition addConsultationCallToConference ::
  "env \<Rightarrow> string \<Rightarrow> string \<Rightarrow> string \<Rightarrow> world \<Rightarrow> (error + unit) \<times> world" where
  "addConsultationCallToConference e conf consultCallSid lamlBinUrl w =
     rethrow_prefixed ''Failed to add consultation call: ''
       (addParticipantToConference e consultCallSid lamlBinUrl w)"

text \<open>The body of \<open>POST /call/transfer/attended\<close> and the response the controller sends.\<close>

record transfer_body =
  conferenceSid :: "string option"
  originalCallSid :: "string option"
  consultFrom :: "string option"
  consultTo :: "string option"
  consultUrl :: "string option"

datatype json_body = ErrorBody string | MessageBody string

datatype http_response = Response (status_code: nat) (json: json_body)

definition LAML_BIN_URL_FOR_CONFERENCE :: string where
  "LAML_BIN_URL_FOR_CONFERENCE = ''https://your-laml-bin.com/whatever''"

text \<open>The four awaited steps inside the \<open>try\<close> block, in order.\<close>

definition transfer_steps ::
  "env \<Rightarrow> string \<Rightarrow> string \<Rightarrow> string \<Rightarrow> string \<Rightarrow> string \<Rightarrow> world \<Rightarrow> (error + unit) \<times> world" where
  "transfer_steps e conf original cFrom cTo cUrl w =
     andThen (holdOriginalParticipant e conf original w)
       (\<lambda>held_result w1.
     andThen (createConsultationCall e cFrom cTo cUrl w1)
       (\<lambda>consultCallSid w2.
     andThen (addConsultationCallToConference e conf consultCallSid
                LAML_BIN_URL_FOR_CONFERENCE w2)
       (\<lambda>added w3.
     unholdOriginalParticipant e conf original w3)))"

text \<open>
  \<open>attendedTransfer\<close>: 400 when a field of the body is falsy; otherwise the four steps,
  200 when all succeed, and 500 with the message of the first error thrown. The single
  \<open>catch\<close> block only logs and responds.
\<close>

definition attendedTransfer :: "env \<Rightarrow> transfer_body \<Rightarrow> world \<Rightarrow> http_response \<times> world" where
  "attendedTransfer e b w =
     (if \<not> truthy (conferenceSid b) \<or> \<not> truthy (originalCallSid b) \<or>
         \<not> truthy (consultFrom b) \<or> \<not> truthy (consultTo b) \<or> \<not> truthy (consultUrl b)
      then (Response 400
              (ErrorBody ''conferenceSid, originalCallSid, consultFrom, consultTo, consultUrl are required''),
            w)
      else
        (case transfer_steps e (or_empty (conferenceSid b)) (or_empty (originalCallSid b))
                (or_empty (consultFrom b)) (or_empty (consultTo b))
                (or_empty (consultUrl b)) w of
           (Inl (Error m), w') \<Rightarrow> (Response 500 (ErrorBody m), w')
         | (Inr done, w') \<Rightarrow>
             (Response 200
                (MessageBody ''Attended transfer complete (original unheld, consult call bridged)''),
              w')))"

section \<open>Concrete scenarios\<close>

text \<open>
  The scenario of the routing examples: the number \<open>+15553334444\<close> is assigned to
  \<open>jdoe\<close> with status \<open>Assigned\<close> and also belongs to a ring group; every collaborator
  answers. The call \<open>CA1\<close> from \<open>+15551112222\<close> is a participant of conference \<open>CF1\<close>.
\<close>

definition scenario_env :: env where
  "scenario_env =
     \<lparr>now = ''2025-01-01T10:00:00Z'',
      logs_failure = None,
      lead_rows = (\<lambda>n. Inr []),
      did_rows = (\<lambda>n. if n = ''+15553334444''
                        then Inr [\<lparr>phone_number = ''+15553334444'', status = Some ''Assigned'',
                                   assigned_user = Some ''jdoe''\<rparr>]
                        else Inr []),
      ring_rows = (\<lambda>n. if n = ''+15553334444''
                         then Inr [\<lparr>rg_phone_number = ''+15553334444'',
                                    ring_group = Some ''sales'', display_name = Some ''Sales''\<rparr>]
                         else Inr []),
      fetch_call = (\<lambda>sid. Inr \<lparr>c_sid = ''CA1'', c_status = ''in-progress'',
                                c_from = ''+15551112222'', c_to = ''+15553334444''\<rparr>),
      create_call = (\<lambda>f t u. Some \<lparr>c_sid = ''CA2'', c_status = ''queued'', c_from = f, c_to = t\<rparr>),
      update_call_ok = (\<lambda>sid url. True),
      post_participant_ok = (\<lambda>conf sid posted. True)\<rparr>"


text \<open>The provider rejects \<open>calls.create\<close>.\<close>

definition env_dial_rejected :: env where
  "env_dial_rejected = scenario_env\<lparr>create_call := (\<lambda>f t u. None)\<rparr>"

text \<open>The directory store is unreachable: every lookup of a number throws.\<close>

definition env_directory_down :: env where
  "env_directory_down =
     scenario_env\<lparr>did_rows := (\<lambda>n. Inl (Error ''connect ECONNREFUSED'')),
                  ring_rows := (\<lambda>n. Inl (Error ''connect ECONNREFUSED''))\<rparr>"

text \<open>No number is assigned to a user; the ring group of \<open>+15553334444\<close> is still there.\<close>

definition env_unassigned :: env where
  "env_unassigned = scenario_env\<lparr>did_rows := (\<lambda>n. Inr [])\<rparr>"

definition empty_world :: world where
  "empty_world = \<lparr>logs = Map.empty, emitted = [], requests = [], lookups = [], held = {}\<rparr>"

text \<open>A world whose \<open>call_logs\<close> holds the finished call \<open>CA1\<close> with its recording.\<close>

definition recorded_call :: call_log where
  "recorded_call =
     \<lparr>call_sid = ''CA1'', call_status = Some ''in-progress'', direction = Some ''inbound'',
      from_number = Some ''+15551112222'', to_number = Some ''+15553334444'',
      call_duration = Some 42, recording_url = Some ''https://files.example/rec1.mp3'',
      participant_sid = None, conference_sid = Some ''CF1'',
      timestamp = ''2025-01-01T09:59:00Z''\<rparr>"

definition recorded_world :: world where
  "recorded_world = empty_world\<lparr>logs := [''CA1'' \<mapsto> recorded_call]\<rparr>"

text \<open>A payload with no field at all, and the payloads derived from it.\<close>

definition no_fields :: webhook_payload where
  "no_fields =
     \<lparr>CallSid = None, ConferenceSid = None, From = None, To = None, Timestamp = None,
      CallStatus = None, Direction = None, StatusCallbackEvent = None,
      ReasonConferenceEnded = None, CallSidEndingConference = None, RecordingUrl = None,
      CallDuration = None, participantSid = None\<rparr>"

definition join_event :: webhook_payload where
  "join_event =
     no_fields\<lparr>StatusCallbackEvent := Some ''participant-join'', CallSid := Some ''CA1'',
               ConferenceSid := Some ''CF1'', From := Some ''+15551112222'',
               To := Some ''+15553334444''\<rparr>"

definition end_event_with_status :: webhook_payload where
  "end_event_with_status =
     no_fields\<lparr>StatusCallbackEvent := Some ''conference-end'', ConferenceSid := Some ''CF1'',
               CallStatus := Some ''ringing''\<rparr>"

definition status_only :: webhook_payload where
  "status_only = no_fields\<lparr>CallSid := Some ''CA1'', CallStatus := Some ''completed''\<rparr>"

definition ringing_status :: webhook_payload where
  "ringing_status =
     no_fields\<lparr>CallSid := Some ''CA1'', CallStatus := Some ''ringing'',
               To := Some ''+15553334444''\<rparr>"

definition ringing_with_empty_event :: webhook_payload where
  "ringing_with_empty_event = ringing_status\<lparr>StatusCallbackEvent := Some []\<rparr>"

definition transfer_request :: transfer_body where
  "transfer_request =
     \<lparr>conferenceSid = Some ''CF1'', originalCallSid = Some ''CA1'',
      consultFrom = Some ''+15553334444'', consultTo = Some ''+15557778888'',
      consultUrl = Some ''https://example.com/consult.xml''\<rparr>"

section \<open>Properties of the Call Log Store\<close>

lemma max_placeholder_logCallStatus_text: "max_placeholder (logCallStatus_text b) = 9"
  unfolding logCallStatus_text_def
  by (cases b) (simp_all add: digits_value_def digit_value_def is_digit_def)

lemma max_placeholder_callStatusUpdate_text: "max_placeholder callStatusUpdate_text = 8"
  unfolding callStatusUpdate_text_def
  by (simp add: digits_value_def digit_value_def is_digit_def)

lemma parses_logCallStatus_text: "\<not> missing_separator (split_words [] (logCallStatus_text b))"
  unfolding logCallStatus_text_def
  by (cases b) (simp_all add: is_space_def is_placeholder_def is_digit_def)

lemma parses_callStatusUpdate_text: "\<not> missing_separator (split_words [] callStatusUpdate_text)"
  unfolding callStatusUpdate_text_def
  by (simp add: is_space_def is_placeholder_def is_digit_def)

lemma accepted_logCallStatus_text: "n = 9 \<Longrightarrow> refusal (logCallStatus_text b) n = None"
  by (simp add: refusal_def parses_logCallStatus_text max_placeholder_logCallStatus_text)

lemma accepted_callStatusUpdate_text: "n = 8 \<Longrightarrow> refusal callStatusUpdate_text n = None"
  by (simp add: refusal_def parses_callStatusUpdate_text max_placeholder_callStatusUpdate_text)

text \<open>With the store reachable, \<open>logCallStatus\<close> is its upsert followed by its message.\<close>

lemma logs_logCallStatus:
  "logs_failure e = None \<Longrightarrow>
   logCallStatus e k st dir f t dur rec part conf w =
     (Inr (),
      emit ''outbound-call-status''
        [(''callSid'', Str k), (''status'', Str st), (''from'', Str f), (''to'', Str t)]
        (w\<lparr>logs := upsert_call_log (truthy rec)
           \<lparr>call_sid = k, call_status = Some st, direction = Some dir, from_number = Some f,
            to_number = Some t, call_duration = num_or_null dur, recording_url = or_null rec,
            participant_sid = or_null part, conference_sid = or_null conf,
            timestamp = now e\<rparr> (logs w)\<rparr>))"
  by (simp add: logCallStatus_def query_def accepted_logCallStatus_text)

lemma logCallStatus_failure:
  "logs_failure e = Some err \<Longrightarrow>
   logCallStatus e k st dir f t dur rec part conf w =
     (Inl (Error ''Failed to insert call log into database''), w)"
  by (simp add: logCallStatus_def query_def)

text \<open>
  The merge that \<open>logCallStatus\<close> performs on a stored row: \<open>direction\<close>, \<open>from_number\<close>
  and \<open>to_number\<close> stay; status, duration, participant, conference and timestamp are
  taken from the update (NULL when the update has none); \<open>recording_url\<close> is replaced
  only by a truthy \<open>recordingUrl\<close>.
\<close>

lemma logCallStatus_merge:
  assumes "logs_failure e = None" "logs w k = Some old"
  shows "logs (snd (logCallStatus e k st dir f t dur rec part conf w)) k =
     Some (old\<lparr>call_status := Some st,
          call_duration := num_or_null dur,
          participant_sid := or_null part,
          conference_sid := or_null conf,
          timestamp := now e,
          recording_url := (if truthy rec then rec else recording_url old)\<rparr>)"
  using assms
  by (simp add: logs_logCallStatus emit_def upsert_call_log_def or_null_def)



text \<open>
  C2, at the failing input. The stored row of \<open>CA1\<close> has a recording; the payload supplies
  \<open>CallSid\<close> and \<open>CallStatus\<close> only. \<open>callStatusUpdate\<close> sets \<open>recording_url\<close> from the
  update unconditionally, so the stored recording becomes NULL, whereas \<open>logCallStatus\<close>
  (lemma \<open>logCallStatus_merge\<close>) keeps it.
\<close>

theorem callStatusUpdate_clobbers_recording_url:
  "map_option recording_url (logs recorded_world ''CA1'') =
     Some (Some ''https://files.example/rec1.mp3'')
   \<and> RecordingUrl status_only = None
   \<and> map_option recording_url
       (logs (snd (callStatusUpdate scenario_env status_only recorded_world)) ''CA1'') =
     Some None"
  by (simp add: callStatusUpdate_def query_def accepted_callStatusUpdate_text
        upsert_status_update_def scenario_env_def status_only_def no_fields_def empty_world_def
        recorded_world_def recorded_call_def bind_text_def Let_def)




section \<open>Properties of the Transfer Orchestrator\<close>

lemma hold_accepted:
  "post_participant_ok e c orig [(''Hold'', ''true'')] \<Longrightarrow>
   holdOriginalParticipant e c orig w =
     (Inr (), w\<lparr>requests := requests w @ [PostParticipant c orig [(''Hold'', ''true'')]],
               held := insert (c, orig) (held w)\<rparr>)"
  by (simp add: holdOriginalParticipant_def updateParticipant_def rethrow_prefixed_def
      apply_participant_update_def Let_def)

lemma consultation_failed:
  "create_call e f t u = None \<or> logs_failure e \<noteq> None \<Longrightarrow>
   createConsultationCall e f t u w =
     (Inl (Error ''Failed to create consultation call: Failed to initiate call''),
      w\<lparr>requests := requests w @ [CreateCall f t u]\<rparr>)"
  by (cases "create_call e f t u"; cases "logs_failure e")
     (auto simp add: createConsultationCall_def dial_def andThen_def rethrow_as_def
        rethrow_prefixed_def logCallStatus_failure logs_logCallStatus)

lemma consultation_created:
  "create_call e f t u = Some c \<Longrightarrow> logs_failure e = None \<Longrightarrow>
   \<exists>w'. createConsultationCall e f t u w = (Inr (c_sid c), w') \<and>
        requests w' = requests w @ [CreateCall f t u] \<and> held w' = held w"
  by (simp add: createConsultationCall_def dial_def andThen_def rethrow_as_def
        rethrow_prefixed_def logs_logCallStatus emit_def)

text \<open>
  C1, as amended. When the hold of the original participant is accepted and the
  consultation dial then fails (the provider rejects the call, or logging it fails),
  \<open>attendedTransfer\<close> issues no further request: it answers 500 with the error's message,
  the only requests sent are the hold and the dial, and the original participant is still
  on hold.
\<close>

theorem attendedTransfer_dial_failure_leaves_hold:
  assumes "truthy (conferenceSid b)" "truthy (originalCallSid b)" "truthy (consultFrom b)"
    "truthy (consultTo b)" "truthy (consultUrl b)"
    and "post_participant_ok e (or_empty (conferenceSid b)) (or_empty (originalCallSid b))
           [(''Hold'', ''true'')]"
    and "create_call e (or_empty (consultFrom b)) (or_empty (consultTo b))
           (or_empty (consultUrl b)) = None
         \<or> logs_failure e \<noteq> None"
  shows "fst (attendedTransfer e b w) =
           Response 500 (ErrorBody ''Failed to create consultation call: Failed to initiate call'')
       \<and> requests (snd (attendedTransfer e b w)) =
           requests w @
             [PostParticipant (or_empty (conferenceSid b)) (or_empty (originalCallSid b))
                [(''Hold'', ''true'')],
              CreateCall (or_empty (consultFrom b)) (or_empty (consultTo b))
                (or_empty (consultUrl b))]
       \<and> (or_empty (conferenceSid b), or_empty (originalCallSid b))
            \<in> held (snd (attendedTransfer e b w))"
  using assms(1-5) consultation_failed[OF assms(7)] hold_accepted[OF assms(6)]
  by (simp add: attendedTransfer_def transfer_steps_def andThen_def)

text \<open>
  The theorem at the scenario in which the provider rejects \<open>calls.create\<close>.
\<close>

theorem attendedTransfer_dial_failure_leaves_hold_witness:
  "truthy (conferenceSid transfer_request)
   \<and> create_call env_dial_rejected ''+15553334444'' ''+15557778888''
        ''https://example.com/consult.xml'' = None
   \<and> fst (attendedTransfer env_dial_rejected transfer_request empty_world) =
        Response 500 (ErrorBody ''Failed to create consultation call: Failed to initiate call'')
   \<and> requests (snd (attendedTransfer env_dial_rejected transfer_request empty_world)) =
        [PostParticipant ''CF1'' ''CA1'' [(''Hold'', ''true'')],
         CreateCall ''+15553334444'' ''+15557778888'' ''https://example.com/consult.xml'']
   \<and> (''CF1'', ''CA1'') \<in> held (snd (attendedTransfer env_dial_rejected transfer_request empty_world))"
  using attendedTransfer_dial_failure_leaves_hold
    [of transfer_request env_dial_rejected empty_world]
  by (simp add: transfer_request_def env_dial_rejected_def scenario_env_def empty_world_def
      truthy_def or_empty_def)

text \<open>
  C1 as stated fails: in that scenario no \<open>Hold=false\<close> request is ever sent, and when the
  500 response is produced the participant \<open>CA1\<close> of \<open>CF1\<close> is on hold.
\<close>

theorem attendedTransfer_no_compensation:
  "fst (attendedTransfer env_dial_rejected transfer_request empty_world) =
     Response 500 (ErrorBody ''Failed to create consultation call: Failed to initiate call'')
   \<and> PostParticipant ''CF1'' ''CA1'' [(''Hold'', ''false'')]
        \<notin> set (requests (snd (attendedTransfer env_dial_rejected transfer_request empty_world)))
   \<and> (''CF1'', ''CA1'') \<in> held (snd (attendedTransfer env_dial_rejected transfer_request empty_world))"
  by (simp add: attendedTransfer_def transfer_steps_def andThen_def holdOriginalParticipant_def
      updateParticipant_def rethrow_prefixed_def apply_participant_update_def Let_def
      createConsultationCall_def dial_def rethrow_as_def
      transfer_request_def env_dial_rejected_def scenario_env_def empty_world_def
      truthy_def or_empty_def)

text \<open>
  C9. Whenever \<open>attendedTransfer\<close> reaches the bridge step (the hold was accepted and the
  consultation call was created and logged), the request that attaches the consultation
  call carries the URL \<open>https://your-laml-bin.com/whatever\<close>, whatever the body of the
  request was; \<open>consultUrl\<close> appears in the dial request only. The one request that may
  follow is the unhold.
\<close>

theorem bridge_url_is_constant:
  assumes "truthy (conferenceSid b)" "truthy (originalCallSid b)" "truthy (consultFrom b)"
    "truthy (consultTo b)" "truthy (consultUrl b)"
    and "post_participant_ok e (or_empty (conferenceSid b)) (or_empty (originalCallSid b))
           [(''Hold'', ''true'')]"
    and "create_call e (or_empty (consultFrom b)) (or_empty (consultTo b))
           (or_empty (consultUrl b)) = Some c"
    and "logs_failure e = None"
  shows "\<exists>rest. requests (snd (attendedTransfer e b w)) =
           requests w @
             [PostParticipant (or_empty (conferenceSid b)) (or_empty (originalCallSid b))
                [(''Hold'', ''true'')],
              CreateCall (or_empty (consultFrom b)) (or_empty (consultTo b))
                (or_empty (consultUrl b)),
              UpdateCall (c_sid c) ''https://your-laml-bin.com/whatever''] @ rest
          \<and> (rest = [] \<or>
              rest = [PostParticipant (or_empty (conferenceSid b)) (or_empty (originalCallSid b))
                        [(''Hold'', ''false'')]])"
proof -
  let ?w1 = "w\<lparr>requests := requests w @
                 [PostParticipant (or_empty (conferenceSid b)) (or_empty (originalCallSid b))
                    [(''Hold'', ''true'')]],
               held := insert (or_empty (conferenceSid b), or_empty (originalCallSid b)) (held w)\<rparr>"
  obtain w2 where w2: "createConsultationCall e (or_empty (consultFrom b)) (or_empty (consultTo b))
      (or_empty (consultUrl b)) ?w1 = (Inr (c_sid c), w2)"
     and r2: "requests w2 = requests w @
        [PostParticipant (or_empty (conferenceSid b)) (or_empty (originalCallSid b))
           [(''Hold'', ''true'')]] @
        [CreateCall (or_empty (consultFrom b)) (or_empty (consultTo b)) (or_empty (consultUrl b))]"
    using consultation_created[OF assms(7,8), of ?w1] by fastforce
  show ?thesis
    using assms(1-5) hold_accepted[OF assms(6)] w2 r2
    by (auto simp add: attendedTransfer_def transfer_steps_def andThen_def
        addConsultationCallToConference_def addParticipantToConference_def
        unholdOriginalParticipant_def updateParticipant_def rethrow_prefixed_def
        LAML_BIN_URL_FOR_CONFERENCE_def Let_def split: prod.splits sum.splits error.splits)
qed

text \<open>
  The theorem at the scenario in which every collaborator answers.
\<close>

theorem bridge_url_is_constant_witness:
  "truthy (consultUrl transfer_request)
   \<and> logs_failure scenario_env = None
   \<and> (\<exists>rest. requests (snd (attendedTransfer scenario_env transfer_request empty_world)) =
        [PostParticipant ''CF1'' ''CA1'' [(''Hold'', ''true'')],
         CreateCall ''+15553334444'' ''+15557778888'' ''https://example.com/consult.xml'',
         UpdateCall ''CA2'' ''https://your-laml-bin.com/whatever''] @ rest)"
  using bridge_url_is_constant
    [of transfer_request scenario_env
        "\<lparr>c_sid = ''CA2'', c_status = ''queued'', c_from = ''+15553334444'',
          c_to = ''+15557778888''\<rparr>" empty_world]
  by (auto simp add: transfer_request_def scenario_env_def empty_world_def
      truthy_def or_empty_def)

section \<open>Properties of the event routing\<close>

lemma CallStatus_irrelevant:
  "truthy (StatusCallbackEvent input) \<Longrightarrow>
   incomingCallNotification e (input\<lparr>CallStatus := c\<rparr>) w = incomingCallNotification e input w"
  by (simp add: incomingCallNotification_def participant_join_def
      cong: sum.case_cong option.case_cong)

lemma conference_end_result:
  "StatusCallbackEvent input = Some ''conference-end'' \<Longrightarrow>
   incomingCallNotification e input w =
     (Inr (), w\<lparr>emitted := emitted w @ [Emit ''conference-end''
           [(''conferenceSid'', js (ConferenceSid input)),
            (''reason'', js (ReasonConferenceEnded input)),
            (''callSidEndingConference'', js (CallSidEndingConference input))]]\<rparr>)"
  by (simp add: incomingCallNotification_def rethrow_as_def emit_def or_empty_def truthy_def)

text \<open>
  A present but empty \<open>StatusCallbackEvent\<close> is handled exactly as an absent one.
\<close>

lemma empty_event_as_absent:
  "StatusCallbackEvent input = Some [] \<Longrightarrow>
   incomingCallNotification e input w =
     incomingCallNotification e (input\<lparr>StatusCallbackEvent := None\<rparr>) w"
  by (simp add: incomingCallNotification_def status_update_branch_def truthy_def
      cong: sum.case_cong option.case_cong)

text \<open>
  C5, as amended. When \<open>StatusCallbackEvent\<close> is present and not the empty string, the
  handling does not depend on \<open>CallStatus\<close>: replacing that field by any value, or removing
  it, gives the same result and the same effects. In particular a \<open>conference-end\<close> event
  publishes exactly the \<open>conference-end\<close> message whatever \<open>CallStatus\<close> holds. When
  \<open>StatusCallbackEvent\<close> is the empty string, the payload is handled as the same payload
  without that field.
\<close>

theorem event_field_decides_alone:
  "(truthy (StatusCallbackEvent input) \<longrightarrow>
     incomingCallNotification e (input\<lparr>CallStatus := c\<rparr>) w = incomingCallNotification e input w
     \<and> (StatusCallbackEvent input = Some ''conference-end'' \<longrightarrow>
          incomingCallNotification e (input\<lparr>CallStatus := c\<rparr>) w =
            (Inr (), w\<lparr>emitted := emitted w @ [Emit ''conference-end''
                  [(''conferenceSid'', js (ConferenceSid input)),
                   (''reason'', js (ReasonConferenceEnded input)),
                   (''callSidEndingConference'', js (CallSidEndingConference input))]]\<rparr>)))
   \<and> (StatusCallbackEvent input = Some [] \<longrightarrow>
        incomingCallNotification e input w =
          incomingCallNotification e (input\<lparr>StatusCallbackEvent := None\<rparr>) w)"
  using CallStatus_irrelevant[of input e c w] conference_end_result[of input e w]
    empty_event_as_absent[of input e w]
  by (intro conjI impI) simp_all

text \<open>
  The theorem at a \<open>conference-end\<close> payload that also carries \<open>CallStatus = ringing\<close>, and
  at the \<open>ringing\<close> payload whose \<open>StatusCallbackEvent\<close> is the empty string.
\<close>

theorem event_field_decides_alone_witness:
  "truthy (StatusCallbackEvent end_event_with_status)
   \<and> CallStatus end_event_with_status = Some ''ringing''
   \<and> incomingCallNotification scenario_env (end_event_with_status\<lparr>CallStatus := None\<rparr>)
         empty_world =
       incomingCallNotification scenario_env end_event_with_status empty_world
   \<and> emitted (snd (incomingCallNotification scenario_env end_event_with_status empty_world)) =
       [Emit ''conference-end''
          [(''conferenceSid'', Str ''CF1''), (''reason'', Undefined),
           (''callSidEndingConference'', Undefined)]]
   \<and> StatusCallbackEvent ringing_with_empty_event = Some []
   \<and> incomingCallNotification scenario_env ringing_with_empty_event empty_world =
       incomingCallNotification scenario_env ringing_status empty_world"
proof -
  have t: "truthy (StatusCallbackEvent end_event_with_status)"
    by (simp add: end_event_with_status_def no_fields_def truthy_def)
  have s: "StatusCallbackEvent end_event_with_status = Some ''conference-end''"
    by (simp add: end_event_with_status_def no_fields_def)
  have c: "CallStatus end_event_with_status = Some ''ringing''"
    by (simp add: end_event_with_status_def no_fields_def)
  note th = event_field_decides_alone[of end_event_with_status scenario_env None empty_world]
  from th t have eq: "incomingCallNotification scenario_env
        (end_event_with_status\<lparr>CallStatus := None\<rparr>) empty_world =
      incomingCallNotification scenario_env end_event_with_status empty_world"
    by blast
  from th t s have "incomingCallNotification scenario_env
        (end_event_with_status\<lparr>CallStatus := None\<rparr>) empty_world =
      (Inr (), empty_world\<lparr>emitted := emitted empty_world @ [Emit ''conference-end''
                [(''conferenceSid'', js (ConferenceSid end_event_with_status)),
                 (''reason'', js (ReasonConferenceEnded end_event_with_status)),
                 (''callSidEndingConference'',
                  js (CallSidEndingConference end_event_with_status))]]\<rparr>)"
    by blast
  with eq have em: "emitted (snd (incomingCallNotification scenario_env end_event_with_status
        empty_world)) =
       [Emit ''conference-end''
          [(''conferenceSid'', Str ''CF1''), (''reason'', Undefined),
           (''callSidEndingConference'', Undefined)]]"
    by (simp add: end_event_with_status_def no_fields_def js_def empty_world_def)
  have empty: "StatusCallbackEvent ringing_with_empty_event = Some []"
    by (simp add: ringing_with_empty_event_def)
  have absent: "ringing_with_empty_event\<lparr>StatusCallbackEvent := None\<rparr> = ringing_status"
    by (simp add: ringing_with_empty_event_def ringing_status_def no_fields_def)
  from event_field_decides_alone[of ringing_with_empty_event scenario_env None empty_world]
    empty absent
  have same: "incomingCallNotification scenario_env ringing_with_empty_event empty_world =
       incomingCallNotification scenario_env ringing_status empty_world"
    by simp
  from t c eq em empty same show ?thesis by blast
qed

text \<open>
  C5 as stated fails: a payload whose \<open>StatusCallbackEvent\<close> is present but empty is
  handled by the \<open>CallStatus\<close> branch (\<open>if (StatusCallbackEvent)\<close> is false for the empty
  string): with \<open>CallStatus = ringing\<close> a status message is published, without
  \<open>CallStatus\<close> nothing is.
\<close>

theorem empty_event_takes_status_branch:
  "StatusCallbackEvent ringing_with_empty_event = Some []
   \<and> emitted (snd (incomingCallNotification scenario_env ringing_with_empty_event empty_world)) =
       [Emit ''user-call-status-jdoe''
          [(''callSid'', Str ''CA1''), (''callStatus'', Str ''ringing''), (''from'', Undefined),
           (''to'', Str ''+15553334444''), (''timestamp'', Undefined)]]
   \<and> emitted (snd (incomingCallNotification scenario_env
         (ringing_with_empty_event\<lparr>CallStatus := None\<rparr>) empty_world)) = []"
  by (simp add: incomingCallNotification_def status_update_branch_def rethrow_as_def andThen_def
      findUserByPhoneNumber_def user_assigned_def toLowerCase_def lower_char_def template_def
      emit_def js_def or_empty_def truthy_def Let_def
      ringing_with_empty_event_def ringing_status_def no_fields_def scenario_env_def
      empty_world_def)

text \<open>
  C7. A payload without a (truthy) \<open>StatusCallbackEvent\<close> whose \<open>CallStatus\<close> is
  \<open>completed\<close> is handled successfully and changes nothing: no message is published on any
  channel, and no lookup is made.
\<close>

theorem completed_status_suppressed:
  "\<not> truthy (StatusCallbackEvent input) \<Longrightarrow> CallStatus input = Some ''completed'' \<Longrightarrow>
   incomingCallNotification e input w = (Inr (), w)"
  by (simp add: incomingCallNotification_def status_update_branch_def rethrow_as_def
      truthy_def or_empty_def)

text \<open>
  The theorem at the payload that carries \<open>CallSid\<close> and \<open>CallStatus = completed\<close> only.
\<close>

theorem completed_status_suppressed_witness:
  "\<not> truthy (StatusCallbackEvent status_only) \<and> CallStatus status_only = Some ''completed''
   \<and> emitted (snd (incomingCallNotification scenario_env status_only empty_world)) = []
   \<and> lookups (snd (incomingCallNotification scenario_env status_only empty_world)) = []"
  using completed_status_suppressed[of status_only scenario_env empty_world]
  by (simp add: status_only_def no_fields_def truthy_def empty_world_def)

section \<open>Properties of handleVoiceStatusCallback\<close>

lemma max_placeholder_voice_select_text: "max_placeholder voice_select_text = 1"
  unfolding voice_select_text_def
  by (simp add: digits_value_def digit_value_def is_digit_def)

lemma max_placeholder_voice_update_text: "max_placeholder voice_update_text = 6"
  unfolding voice_update_text_def
  by (simp add: digits_value_def digit_value_def is_digit_def)

lemma max_placeholder_voice_insert_text: "max_placeholder voice_insert_text = 7"
  unfolding voice_insert_text_def
  by (simp add: digits_value_def digit_value_def is_digit_def)

lemma accepted_voice_select_text: "n = 1 \<Longrightarrow> refusal voice_select_text n = None"
  unfolding refusal_def max_placeholder_voice_select_text
  by (simp add: voice_select_text_def is_space_def is_placeholder_def is_digit_def)

lemma accepted_voice_insert_text: "n = 7 \<Longrightarrow> refusal voice_insert_text n = None"
  unfolding refusal_def max_placeholder_voice_insert_text
  by (simp add: voice_insert_text_def is_space_def is_placeholder_def is_digit_def)

text \<open>The UPDATE does not parse: \<open>$5\<close> is followed by \<open>timestamp =\<close>.\<close>

lemma voice_update_text_missing_comma: "missing_separator (split_words [] voice_update_text)"
  unfolding voice_update_text_def
  by (simp add: is_space_def is_placeholder_def is_digit_def)

lemma refused_voice_update_text: "refusal voice_update_text n = Some (Error ''syntax error'')"
  by (simp add: refusal_def voice_update_text_missing_comma)

lemma voice_update_refused:
  "\<exists>err. query e voice_update_text [v1, v2, v3, v4] run tbl = Inl err"
  by (cases "logs_failure e") (simp_all add: query_def refused_voice_update_text)

lemma voice_callback_existing_row:
  assumes "CallSid p = Some k" "logs w k = Some r"
  shows "\<exists>err. handleVoiceStatusCallback e p w = (Inl err, w)"
proof (cases "logs_failure e")
  case (Some err)
  then show ?thesis
    by (simp add: handleVoiceStatusCallback_def query_def)
next
  case None
  then show ?thesis using assms
    by (simp add: handleVoiceStatusCallback_def query_def accepted_voice_select_text
        refused_voice_update_text select_by_call_sid_def)
qed

lemma voice_callback_success_inserted:
  assumes "fst (handleVoiceStatusCallback e p w) = Inr ()"
  shows "select_by_call_sid (CallSid p) (logs w) = []"
proof (rule ccontr)
  assume "select_by_call_sid (CallSid p) (logs w) \<noteq> []"
  then obtain k r where "CallSid p = Some k" "logs w k = Some r"
    by (auto simp add: select_by_call_sid_def split: option.splits)
  from voice_callback_existing_row[OF this, of e] assms show False
    by auto
qed

text \<open>
  C10. The UPDATE of \<open>handleVoiceStatusCallback\<close> has six placeholders, is sent with
  four values, and lacks the comma before its timestamp assignment, so whenever the payload's \<open>CallSid\<close> already has a row, the callback throws
  and the world, the stored row included, is unchanged. A run that succeeds found no row
  for the \<open>CallSid\<close>: it went through the INSERT.
\<close>

theorem voice_callback_update_never_succeeds:
  "max_placeholder voice_update_text = 6
   \<and> missing_separator (split_words [] voice_update_text)
   \<and> (CallSid p = Some k \<and> logs w k = Some r \<longrightarrow>
        (\<exists>err. handleVoiceStatusCallback e p w = (Inl err, w)))
   \<and> (fst (handleVoiceStatusCallback e p w) = Inr () \<longrightarrow>
        select_by_call_sid (CallSid p) (logs w) = [])"
  using max_placeholder_voice_update_text voice_update_text_missing_comma
    voice_callback_existing_row[of p k w r e] voice_callback_success_inserted[of e p w]
  by blast

text \<open>First sight of a \<open>CallSid\<close>: the row is inserted.\<close>

lemma voice_first_sight:
  "handleVoiceStatusCallback scenario_env status_only empty_world =
     (Inr (), empty_world\<lparr>logs := [''CA1'' \<mapsto>
        \<lparr>call_sid = ''CA1'', call_status = Some ''completed'', direction = None,
         from_number = None, to_number = None, call_duration = None, recording_url = None,
         participant_sid = None, conference_sid = None,
         timestamp = ''2025-01-01T10:00:00Z''\<rparr>]\<rparr>)"
  by (simp add: handleVoiceStatusCallback_def query_def accepted_voice_select_text
      accepted_voice_insert_text select_by_call_sid_def voice_insert_def
      scenario_env_def status_only_def no_fields_def empty_world_def bind_text_def)

text \<open>
  The theorem at the scenario: the callback for \<open>CA1\<close> fails while \<open>call_logs\<close> holds
  \<open>CA1\<close>, and succeeds on the empty table.
\<close>

theorem voice_callback_update_never_succeeds_witness:
  "CallSid status_only = Some ''CA1'' \<and> logs recorded_world ''CA1'' = Some recorded_call
   \<and> fst (handleVoiceStatusCallback scenario_env status_only recorded_world) =
        Inl (Error ''syntax error'')
   \<and> snd (handleVoiceStatusCallback scenario_env status_only recorded_world) = recorded_world
   \<and> fst (handleVoiceStatusCallback scenario_env status_only empty_world) = Inr ()
   \<and> select_by_call_sid (CallSid status_only) (logs empty_world) = []"
proof -
  have k: "CallSid status_only = Some ''CA1''"
    by (simp add: status_only_def no_fields_def)
  have r: "logs recorded_world ''CA1'' = Some recorded_call"
    by (simp add: recorded_world_def empty_world_def)
  from voice_callback_update_never_succeeds
         [of status_only "''CA1''" recorded_world recorded_call scenario_env] k r
  have unchanged: "snd (handleVoiceStatusCallback scenario_env status_only recorded_world) =
      recorded_world"
    by auto
  have err: "fst (handleVoiceStatusCallback scenario_env status_only recorded_world) =
        Inl (Error ''syntax error'')"
    using k r
    by (simp add: handleVoiceStatusCallback_def query_def accepted_voice_select_text
        refused_voice_update_text select_by_call_sid_def scenario_env_def)
  have ok: "fst (handleVoiceStatusCallback scenario_env status_only empty_world) = Inr ()"
    by (simp add: voice_first_sight)
  from voice_callback_update_never_succeeds
         [of status_only "''CA1''" empty_world recorded_call scenario_env] ok
  have "select_by_call_sid (CallSid status_only) (logs empty_world) = []"
    by blast
  with k r unchanged err ok show ?thesis by blast
qed

section \<open>Every run of the event routing\<close>

lemmas join_steps =
  participant_join_def andThen_def findLeadByPhoneNumber_def findUserByPhoneNumber_def
  findRingGroupByPhoneNumber_def emit_def Let_def logs_logCallStatus logCallStatus_failure

text \<open>
  Every run of the \<open>participant-join\<close> case ends in one of six ways, told apart by what
  the collaborators answered; each comes with the lookups made and the messages published.
\<close>

lemma participant_join_outcome:
  assumes R: "R = participant_join e input w"
  obtains
    (stopped_early) "isl (fst R)" "lookups (snd R) = lookups w" "emitted (snd R) = emitted w"
  | (lead_failed) pr where "fetch_call e (CallSid input) = Inr pr" "isl (fst R)"
      "lookups (snd R) = lookups w @ [LeadLookup (c_from pr)]"
      "emitted (snd R) = emitted w @ [Emit ''outbound-call-status''
          [(''callSid'', Str (c_sid pr)), (''status'', Str (c_status pr)),
           (''from'', Str (c_from pr)), (''to'', Str (c_to pr))]]"
  | (user_failed) pr where "fetch_call e (CallSid input) = Inr pr" "isl (fst R)"
      "lookups (snd R) = lookups w @ [LeadLookup (c_from pr), UserLookup (c_to pr)]"
      "emitted (snd R) = emitted w @ [Emit ''outbound-call-status''
          [(''callSid'', Str (c_sid pr)), (''status'', Str (c_status pr)),
           (''from'', Str (c_from pr)), (''to'', Str (c_to pr))]]"
  | (to_user) pr rows u ls where "fetch_call e (CallSid input) = Inr pr"
      "did_rows e (c_to pr) = Inr rows"
      "lead_rows e (c_from pr) = Inr ls"
      "user_assigned (case rows of [] \<Rightarrow> None | r # rest \<Rightarrow> Some r) = Inr (Some u)"
      "fst R = Inr ()"
      "lookups (snd R) = lookups w @ [LeadLookup (c_from pr), UserLookup (c_to pr)]"
      "emitted (snd R) = emitted w @ [Emit ''outbound-call-status''
          [(''callSid'', Str (c_sid pr)), (''status'', Str (c_status pr)),
           (''from'', Str (c_from pr)), (''to'', Str (c_to pr))],
         Emit (''user-notification-'' @ template (assigned_user u))
            [(''conferenceSid'', js (ConferenceSid input)),
             (''callSid'', js (CallSid input)),
             (''from'', Str (c_from pr)),
             (''to'', Str (or_empty (To input))),
             (''leadData'', lead_data (case ls of [] \<Rightarrow> None | r # rest \<Rightarrow> Some r))]]"
  | (ring_failed) pr rows where "fetch_call e (CallSid input) = Inr pr"
      "did_rows e (c_to pr) = Inr rows"
      "user_assigned (case rows of [] \<Rightarrow> None | r # rest \<Rightarrow> Some r) = Inr None"
      "isl (ring_rows e (c_to pr))"
      "isl (fst R)"
      "lookups (snd R) =
         lookups w @ [LeadLookup (c_from pr), UserLookup (c_to pr), RingGroupLookup (c_to pr)]"
      "emitted (snd R) = emitted w @ [Emit ''outbound-call-status''
          [(''callSid'', Str (c_sid pr)), (''status'', Str (c_status pr)),
           (''from'', Str (c_from pr)), (''to'', Str (c_to pr))]]"
  | (to_ring_or_queue) pr rows gs m where "fetch_call e (CallSid input) = Inr pr"
      "did_rows e (c_to pr) = Inr rows"
      "user_assigned (case rows of [] \<Rightarrow> None | r # rest \<Rightarrow> Some r) = Inr None"
      "ring_rows e (c_to pr) = Inr gs"
      "channel m = (if gs = [] then ''incoming-call'' else ''ring-group-notification'')"
      "fst R = Inr ()"
      "lookups (snd R) =
         lookups w @ [LeadLookup (c_from pr), UserLookup (c_to pr), RingGroupLookup (c_to pr)]"
      "emitted (snd R) = emitted w @ [Emit ''outbound-call-status''
          [(''callSid'', Str (c_sid pr)), (''status'', Str (c_status pr)),
           (''from'', Str (c_from pr)), (''to'', Str (c_to pr))], m]"
proof (cases "fetch_call e (CallSid input)")
  case (Inl err)
  show thesis
    by (rule stopped_early) (simp_all add: R Inl join_steps)
next
  case pr: (Inr pr)
  show thesis
  proof (cases "logs_failure e")
    case (Some x)
    show thesis
      by (rule stopped_early) (simp_all add: R pr Some join_steps)
  next
    case up: None
    show thesis
    proof (cases "lead_rows e (c_from pr)")
      case (Inl err)
      show thesis
        by (rule lead_failed[OF pr]) (simp_all add: R pr up Inl join_steps)
    next
      case lead: (Inr ls)
      show thesis
      proof (cases "did_rows e (c_to pr)")
        case (Inl err)
        show thesis
          by (rule user_failed[OF pr]) (simp_all add: R pr up lead Inl join_steps)
      next
        case did: (Inr rows)
        show thesis
        proof (cases "user_assigned (case rows of [] \<Rightarrow> None | r # rest \<Rightarrow> Some r)")
          case (Inl err)
          show thesis
            by (rule user_failed[OF pr]) (simp_all add: R pr up lead did Inl join_steps)
        next
          case ua: (Inr opt)
          show thesis
          proof (cases opt)
            case (Some u)
            show thesis
              by (rule to_user[OF pr did lead ua[unfolded Some]])
                 (simp_all add: R pr up lead did ua Some join_steps)
          next
            case None
            note un = ua[unfolded None]
            show thesis
            proof (cases "ring_rows e (c_to pr)")
              case (Inl err)
              show thesis
                by (rule ring_failed[OF pr did un])
                   (simp_all add: R pr up lead did un Inl join_steps)
            next
              case ring: (Inr gs)
              show thesis
              proof (cases gs)
                case Nil
                show thesis
                  by (rule to_ring_or_queue[OF pr did un ring, of
                        "Emit ''incoming-call''
                          [(''conferenceSid'', js (ConferenceSid input)),
                           (''callSid'', js (CallSid input)),
                           (''from'', Str (c_from pr)),
                           (''leadData'', lead_data (case ls of [] \<Rightarrow> None | r # rest \<Rightarrow> Some r))]"])
                     (simp_all add: R pr up lead did un ring Nil join_steps)
              next
                case (Cons g rest)
                show thesis
                  by (rule to_ring_or_queue[OF pr did un ring, of
                        "Emit ''ring-group-notification''
                          [(''conferenceSid'', js (ConferenceSid input)),
                           (''callSid'', js (CallSid input)),
                           (''from'', Str (c_from pr)),
                           (''to'', Str (or_empty (To input))),
                           (''source'', nullable (display_name g)),
                           (''leadData'', lead_data (case ls of [] \<Rightarrow> None | r # rest \<Rightarrow> Some r))]"])
                     (simp_all add: R pr up lead did un ring Cons join_steps)
              qed
            qed
          qed
        qed
      qed
    qed
  qed
qed


text \<open>
  Every run of the \<open>CallStatus\<close> branch: suppressed, failed at the user lookup, or
  published on one channel.
\<close>

lemma status_update_outcome:
  assumes R: "R = status_update_branch e input w"
  obtains
    (suppressed) "or_empty (CallStatus input) = ''completed''" "R = (Inr (), w)"
  | (user_failed) "or_empty (CallStatus input) \<noteq> ''completed''" "isl (fst R)"
      "lookups (snd R) = lookups w @ [UserLookup (or_empty (To input))]"
      "emitted (snd R) = emitted w"
  | (to_user) rows u where "or_empty (CallStatus input) \<noteq> ''completed''"
      "did_rows e (or_empty (To input)) = Inr rows"
      "user_assigned (case rows of [] \<Rightarrow> None | r # rest \<Rightarrow> Some r) = Inr (Some u)"
      "fst R = Inr ()"
      "lookups (snd R) = lookups w @ [UserLookup (or_empty (To input))]"
      "emitted (snd R) = emitted w @
         [Emit (''user-call-status-'' @ template (assigned_user u))
            [(''callSid'', js (CallSid input)),
             (''callStatus'', js (CallStatus input)),
             (''from'', js (From input)),
             (''to'', Str (or_empty (To input))),
             (''timestamp'', js (Timestamp input))]]"
  | (to_queue) rows where "or_empty (CallStatus input) \<noteq> ''completed''"
      "did_rows e (or_empty (To input)) = Inr rows"
      "user_assigned (case rows of [] \<Rightarrow> None | r # rest \<Rightarrow> Some r) = Inr None"
      "fst R = Inr ()"
      "lookups (snd R) = lookups w @ [UserLookup (or_empty (To input))]"
      "emitted (snd R) = emitted w @
         [Emit ''call-status-update''
            [(''callSid'', js (CallSid input)),
             (''callStatus'', js (CallStatus input)),
             (''from'', js (From input)),
             (''to'', Str (or_empty (To input))),
             (''timestamp'', js (Timestamp input))]]"
proof (cases "or_empty (CallStatus input) = ''completed''")
  case True
  show thesis
    by (rule suppressed) (simp_all add: R True status_update_branch_def)
next
  case active: False
  show thesis
  proof (cases "did_rows e (or_empty (To input))")
    case (Inl err)
    show thesis
      by (rule user_failed[OF active])
         (simp_all add: R active Inl status_update_branch_def andThen_def
            findUserByPhoneNumber_def Let_def)
  next
    case did: (Inr rows)
    show thesis
    proof (cases "user_assigned (case rows of [] \<Rightarrow> None | r # rest \<Rightarrow> Some r)")
      case (Inl err)
      show thesis
        by (rule user_failed[OF active])
           (simp_all add: R active did Inl status_update_branch_def andThen_def
              findUserByPhoneNumber_def Let_def)
    next
      case ua: (Inr opt)
      show thesis
      proof (cases opt)
        case None
        show thesis
          by (rule to_queue[OF active did ua[unfolded None]])
             (simp_all add: R active did ua None status_update_branch_def andThen_def
                findUserByPhoneNumber_def emit_def Let_def)
      next
        case (Some u)
        show thesis
          by (rule to_user[OF active did ua[unfolded Some]])
             (simp_all add: R active did ua Some status_update_branch_def andThen_def
                findUserByPhoneNumber_def emit_def Let_def)
      qed
    qed
  qed
qed

lemma fst_rethrow_as:
  "fst (rethrow_as msg r) = (case fst r of Inl err \<Rightarrow> Inl (Error msg) | Inr x \<Rightarrow> Inr x)"
  by (cases r; cases "fst r") (auto simp add: rethrow_as_def)

lemma snd_rethrow_as: "snd (rethrow_as msg r) = snd r"
  by (cases r; cases "fst r") (auto simp add: rethrow_as_def)

text \<open>
  The six branches of \<open>incomingCallNotification\<close>.
\<close>

lemma incomingCallNotification_branches:
  obtains
    (join) "truthy (StatusCallbackEvent input)"
      "or_empty (StatusCallbackEvent input) = ''participant-join''"
      "incomingCallNotification e input w =
         rethrow_as ''Error receiving webhook data'' (participant_join e input w)"
  | (leave) "truthy (StatusCallbackEvent input)"
      "or_empty (StatusCallbackEvent input) = ''participant-leave''"
      "incomingCallNotification e input w =
         (Inr (), w\<lparr>emitted := emitted w @ [Emit ''participant-leave''
                [(''conferenceSid'', js (ConferenceSid input)),
                 (''callSid'', js (CallSid input)),
                 (''from'', js (From input)),
                 (''to'', js (To input))]]\<rparr>)"
  | (ended) "truthy (StatusCallbackEvent input)"
      "or_empty (StatusCallbackEvent input) = ''conference-end''"
      "incomingCallNotification e input w =
         (Inr (), w\<lparr>emitted := emitted w @ [Emit ''conference-end''
                [(''conferenceSid'', js (ConferenceSid input)),
                 (''reason'', js (ReasonConferenceEnded input)),
                 (''callSidEndingConference'', js (CallSidEndingConference input))]]\<rparr>)"
  | (unhandled) "truthy (StatusCallbackEvent input)"
      "or_empty (StatusCallbackEvent input) \<noteq> ''participant-join''"
      "or_empty (StatusCallbackEvent input) \<noteq> ''participant-leave''"
      "or_empty (StatusCallbackEvent input) \<noteq> ''conference-end''"
      "incomingCallNotification e input w = (Inr (), w)"
  | (status) "\<not> truthy (StatusCallbackEvent input)" "truthy (CallStatus input)"
      "incomingCallNotification e input w =
         rethrow_as ''Error receiving webhook data'' (status_update_branch e input w)"
  | (unrecognized) "\<not> truthy (StatusCallbackEvent input)" "\<not> truthy (CallStatus input)"
      "incomingCallNotification e input w = (Inr (), w)"
proof (cases "truthy (StatusCallbackEvent input)")
  case ev: True
  show thesis
  proof (cases "or_empty (StatusCallbackEvent input) = ''participant-join''")
    case True
    show thesis
      by (rule join[OF ev True]) (simp add: incomingCallNotification_def ev True)
  next
    case nj: False
    show thesis
    proof (cases "or_empty (StatusCallbackEvent input) = ''participant-leave''")
      case True
      show thesis
        by (rule leave[OF ev True])
           (simp add: incomingCallNotification_def ev True rethrow_as_def emit_def)
    next
      case nl: False
      show thesis
      proof (cases "or_empty (StatusCallbackEvent input) = ''conference-end''")
        case True
        show thesis
          by (rule ended[OF ev True])
             (simp add: incomingCallNotification_def ev True rethrow_as_def emit_def)
      next
        case False
        show thesis
          by (rule unhandled[OF ev nj nl False])
             (simp add: incomingCallNotification_def ev nj nl False rethrow_as_def)
      qed
    qed
  qed
next
  case nev: False
  show thesis
  proof (cases "truthy (CallStatus input)")
    case True
    show thesis
      by (rule status[OF nev True]) (simp add: incomingCallNotification_def nev True)
  next
    case False
    show thesis
      by (rule unrecognized[OF nev False])
         (simp add: incomingCallNotification_def nev False rethrow_as_def)
  qed
qed

text \<open>
  C8. If, while an event is handled, a lookup of the assigned user or of the ring group
  fails in the directory store, \<open>incomingCallNotification\<close> throws (its error is
  \<open>Error receiving webhook data\<close>) and no routing decision is published: the only message of
  the run, if any, is the \<open>outbound-call-status\<close> message of the call log, so nothing goes to
  \<open>incoming-call\<close> or \<open>call-status-update\<close>.
\<close>

theorem directory_failure_is_raised:
  assumes ls: "lookups (snd (incomingCallNotification e input w)) = lookups w @ ls"
    and failing: "(UserLookup n \<in> set ls \<and> isl (did_rows e n)) \<or>
                  (RingGroupLookup n \<in> set ls \<and> isl (ring_rows e n))"
  shows "fst (incomingCallNotification e input w) = Inl (Error ''Error receiving webhook data'')
     \<and> (emitted (snd (incomingCallNotification e input w)) = emitted w \<or>
        (\<exists>p. emitted (snd (incomingCallNotification e input w)) =
               emitted w @ [Emit ''outbound-call-status'' p]))"
proof (cases rule: incomingCallNotification_branches[of input e w])
  case join
  from refl[of "participant_join e input w"] show ?thesis
  proof (cases rule: participant_join_outcome)
    case stopped_early
    with ls failing join show ?thesis
      by (auto simp add: fst_rethrow_as snd_rethrow_as split: sum.splits)
  next
    case (lead_failed pr)
    with ls failing join show ?thesis
      by (auto simp add: fst_rethrow_as snd_rethrow_as split: sum.splits)
  next
    case (user_failed pr)
    with ls failing join show ?thesis
      by (auto simp add: fst_rethrow_as snd_rethrow_as split: sum.splits)
  next
    case (to_user pr rows u ls')
    with ls failing join show ?thesis
      by (auto simp add: fst_rethrow_as snd_rethrow_as split: sum.splits)
  next
    case (ring_failed pr rows)
    with ls failing join show ?thesis
      by (auto simp add: fst_rethrow_as snd_rethrow_as split: sum.splits)
  next
    case (to_ring_or_queue pr rows gs m)
    with ls failing join show ?thesis
      by (auto simp add: fst_rethrow_as snd_rethrow_as split: sum.splits)
  qed
next
  case leave
  with ls failing show ?thesis by auto
next
  case ended
  with ls failing show ?thesis by auto
next
  case unhandled
  with ls failing show ?thesis by auto
next
  case status
  from refl[of "status_update_branch e input w"] show ?thesis
  proof (cases rule: status_update_outcome)
    case suppressed
    with ls failing status show ?thesis
      by (auto simp add: fst_rethrow_as snd_rethrow_as split: sum.splits)
  next
    case user_failed
    with ls failing status show ?thesis
      by (auto simp add: fst_rethrow_as snd_rethrow_as split: sum.splits)
  next
    case (to_user rows u)
    with ls failing status show ?thesis
      by (auto simp add: fst_rethrow_as snd_rethrow_as split: sum.splits)
  next
    case (to_queue rows)
    with ls failing status show ?thesis
      by (auto simp add: fst_rethrow_as snd_rethrow_as split: sum.splits)
  qed
next
  case unrecognized
  with ls failing show ?thesis by auto
qed


lemmas scenario_run =
  incomingCallNotification_def participant_join_def status_update_branch_def rethrow_as_def
  andThen_def findLeadByPhoneNumber_def findUserByPhoneNumber_def
  findRingGroupByPhoneNumber_def user_assigned_def toLowerCase_def lower_char_def
  template_def emit_def js_def nullable_def lead_data_def or_empty_def truthy_def Let_def
  logs_logCallStatus no_fields_def empty_world_def

lemma join_directory_down:
  "incomingCallNotification env_directory_down join_event empty_world =
     (Inl (Error ''Error receiving webhook data''),
      snd (incomingCallNotification env_directory_down join_event empty_world))
   \<and> lookups (snd (incomingCallNotification env_directory_down join_event empty_world)) =
       [LeadLookup ''+15551112222'', UserLookup ''+15553334444'']
   \<and> emitted (snd (incomingCallNotification env_directory_down join_event empty_world)) =
       [Emit ''outbound-call-status''
          [(''callSid'', Str ''CA1''), (''status'', Str ''in-progress''),
           (''from'', Str ''+15551112222''), (''to'', Str ''+15553334444'')]]"
  by (simp add: scenario_run join_event_def env_directory_down_def scenario_env_def)

text \<open>
  The theorem at the join event while the directory store refuses connections.
\<close>

theorem directory_failure_is_raised_witness:
  "lookups (snd (incomingCallNotification env_directory_down join_event empty_world)) =
       lookups empty_world @ [LeadLookup ''+15551112222'', UserLookup ''+15553334444'']
   \<and> isl (did_rows env_directory_down ''+15553334444'')
   \<and> fst (incomingCallNotification env_directory_down join_event empty_world) =
       Inl (Error ''Error receiving webhook data'')
   \<and> emitted (snd (incomingCallNotification env_directory_down join_event empty_world)) =
       [Emit ''outbound-call-status''
          [(''callSid'', Str ''CA1''), (''status'', Str ''in-progress''),
           (''from'', Str ''+15551112222''), (''to'', Str ''+15553334444'')]]"
proof -
  have l: "lookups (snd (incomingCallNotification env_directory_down join_event empty_world)) =
       lookups empty_world @ [LeadLookup ''+15551112222'', UserLookup ''+15553334444'']"
    using join_directory_down by (simp add: empty_world_def)
  have d: "isl (did_rows env_directory_down ''+15553334444'')"
    by (simp add: env_directory_down_def)
  from directory_failure_is_raised[OF l, of "''+15553334444''"] d
  have "fst (incomingCallNotification env_directory_down join_event empty_world) =
       Inl (Error ''Error receiving webhook data'')"
    by simp
  with l d join_directory_down show ?thesis by blast
qed

text \<open>
  C6, as amended. A successfully handled event publishes, by kind: for
  \<open>participant-join\<close>, the \<open>outbound-call-status\<close> message of the call log followed by exactly
  one routed message, on \<open>user-notification-{assigned_user}\<close> when the first \<open>did_numbers\<close>
  row of the callee is assigned, and otherwise on \<open>ring-group-notification\<close> when the
  callee has a \<open>ring_groups\<close> row and on \<open>incoming-call\<close> when it has none; for
  \<open>participant-leave\<close> and \<open>conference-end\<close>, exactly one message on that channel; for a
  status update other than \<open>completed\<close>, exactly one message, on
  \<open>user-call-status-{assigned_user}\<close> when the first \<open>did_numbers\<close> row of \<open>To\<close> is assigned
  and on \<open>call-status-update\<close> otherwise; for every other payload, none.
\<close>

theorem routed_messages_per_event:
  assumes ok: "fst (incomingCallNotification e input w) = Inr ()"
  shows "\<exists>ms. emitted (snd (incomingCallNotification e input w)) = emitted w @ ms \<and>
    (if truthy (StatusCallbackEvent input) then
       (if or_empty (StatusCallbackEvent input) = ''participant-join'' then
          (\<exists>pr rows p m. fetch_call e (CallSid input) = Inr pr \<and>
             did_rows e (c_to pr) = Inr rows \<and>
             ms = [Emit ''outbound-call-status'' p, m] \<and>
             (case user_assigned (case rows of [] \<Rightarrow> None | r # rest \<Rightarrow> Some r) of
                Inl err \<Rightarrow> False
              | Inr (Some u) \<Rightarrow>
                  channel m = ''user-notification-'' @ template (assigned_user u)
              | Inr None \<Rightarrow>
                  (\<exists>gs. ring_rows e (c_to pr) = Inr gs \<and>
                     channel m =
                       (if gs = [] then ''incoming-call'' else ''ring-group-notification''))))
        else if or_empty (StatusCallbackEvent input) = ''participant-leave'' then
          (\<exists>p. ms = [Emit ''participant-leave'' p])
        else if or_empty (StatusCallbackEvent input) = ''conference-end'' then
          (\<exists>p. ms = [Emit ''conference-end'' p])
        else ms = [])
     else if truthy (CallStatus input) \<and> or_empty (CallStatus input) \<noteq> ''completed'' then
       (\<exists>rows m. did_rows e (or_empty (To input)) = Inr rows \<and> ms = [m] \<and>
          (case user_assigned (case rows of [] \<Rightarrow> None | r # rest \<Rightarrow> Some r) of
             Inl err \<Rightarrow> False
           | Inr (Some u) \<Rightarrow> channel m = ''user-call-status-'' @ template (assigned_user u)
           | Inr None \<Rightarrow> channel m = ''call-status-update''))
     else ms = [])"
proof (cases rule: incomingCallNotification_branches[of input e w])
  case join
  from refl[of "participant_join e input w"] show ?thesis
  proof (cases rule: participant_join_outcome)
    case stopped_early
    with ok join show ?thesis
      by (auto simp add: fst_rethrow_as snd_rethrow_as split: sum.splits)
  next
    case (lead_failed pr)
    with ok join show ?thesis
      by (auto simp add: fst_rethrow_as snd_rethrow_as split: sum.splits)
  next
    case (user_failed pr)
    with ok join show ?thesis
      by (auto simp add: fst_rethrow_as snd_rethrow_as split: sum.splits)
  next
    case (to_user pr rows u ls')
    with ok join show ?thesis
      by (simp add: fst_rethrow_as snd_rethrow_as)
  next
    case (ring_failed pr rows)
    with ok join show ?thesis
      by (auto simp add: fst_rethrow_as snd_rethrow_as split: sum.splits)
  next
    case (to_ring_or_queue pr rows gs m)
    with ok join show ?thesis
      by (simp add: fst_rethrow_as snd_rethrow_as)
  qed
next
  case leave
  then show ?thesis by simp
next
  case ended
  then show ?thesis by simp
next
  case unhandled
  then show ?thesis by simp
next
  case status
  from refl[of "status_update_branch e input w"] show ?thesis
  proof (cases rule: status_update_outcome)
    case suppressed
    with ok status show ?thesis
      by (simp add: fst_rethrow_as snd_rethrow_as)
  next
    case user_failed
    with ok status show ?thesis
      by (auto simp add: fst_rethrow_as snd_rethrow_as split: sum.splits)
  next
    case (to_user rows u)
    with ok status show ?thesis
      by (simp add: fst_rethrow_as snd_rethrow_as)
  next
    case (to_queue rows)
    with ok status show ?thesis
      by (simp add: fst_rethrow_as snd_rethrow_as)
  qed
next
  case unrecognized
  then show ?thesis by simp
qed

lemma join_scenario_run:
  "fst (incomingCallNotification scenario_env join_event empty_world) = Inr ()
   \<and> emitted (snd (incomingCallNotification scenario_env join_event empty_world)) =
       [Emit ''outbound-call-status''
          [(''callSid'', Str ''CA1''), (''status'', Str ''in-progress''),
           (''from'', Str ''+15551112222''), (''to'', Str ''+15553334444'')],
        Emit ''user-notification-jdoe''
          [(''conferenceSid'', Str ''CF1''), (''callSid'', Str ''CA1''),
           (''from'', Str ''+15551112222''), (''to'', Str ''+15553334444''),
           (''leadData'', Null)]]"
  by (simp add: scenario_run join_event_def scenario_env_def)

lemma ringing_scenario_run:
  "fst (incomingCallNotification scenario_env ringing_status empty_world) = Inr ()"
  by (simp add: scenario_run ringing_status_def scenario_env_def)

text \<open>
  The theorem at the join event and at the \<open>ringing\<close> status update of the scenario: the
  theorem alone places the routed messages on the channels of \<open>jdoe\<close>.
\<close>

theorem routed_messages_per_event_witness:
  "fst (incomingCallNotification scenario_env join_event empty_world) = Inr ()
   \<and> (\<exists>p m. emitted (snd (incomingCallNotification scenario_env join_event empty_world)) =
          [Emit ''outbound-call-status'' p, m] \<and> channel m = ''user-notification-jdoe'')
   \<and> fst (incomingCallNotification scenario_env ringing_status empty_world) = Inr ()
   \<and> (\<exists>m. emitted (snd (incomingCallNotification scenario_env ringing_status empty_world)) =
          [m] \<and> channel m = ''user-call-status-jdoe'')"
proof -
  have ok: "fst (incomingCallNotification scenario_env join_event empty_world) = Inr ()"
    using join_scenario_run by simp
  have t: "truthy (StatusCallbackEvent join_event)"
    "or_empty (StatusCallbackEvent join_event) = ''participant-join''"
    by (simp_all add: join_event_def no_fields_def truthy_def or_empty_def)
  from routed_messages_per_event[OF ok] t
  have "\<exists>ms pr rows p m.
          emitted (snd (incomingCallNotification scenario_env join_event empty_world)) =
            emitted empty_world @ ms \<and>
          fetch_call scenario_env (CallSid join_event) = Inr pr \<and>
          did_rows scenario_env (c_to pr) = Inr rows \<and>
          ms = [Emit ''outbound-call-status'' p, m] \<and>
          (case user_assigned (case rows of [] \<Rightarrow> None | r # rest \<Rightarrow> Some r) of
             Inl err \<Rightarrow> False
           | Inr (Some u) \<Rightarrow> channel m = ''user-notification-'' @ template (assigned_user u)
           | Inr None \<Rightarrow>
               (\<exists>gs. ring_rows scenario_env (c_to pr) = Inr gs \<and>
                  channel m =
                    (if gs = [] then ''incoming-call'' else ''ring-group-notification'')))"
    by auto
  then have j: "\<exists>p m. emitted (snd (incomingCallNotification scenario_env join_event
        empty_world)) = [Emit ''outbound-call-status'' p, m] \<and>
        channel m = ''user-notification-jdoe''"
    by (auto simp add: scenario_env_def empty_world_def user_assigned_def toLowerCase_def
        lower_char_def template_def)
  have ok2: "fst (incomingCallNotification scenario_env ringing_status empty_world) = Inr ()"
    using ringing_scenario_run by simp
  have t2: "\<not> truthy (StatusCallbackEvent ringing_status)"
    "truthy (CallStatus ringing_status)"
    "or_empty (CallStatus ringing_status) \<noteq> ''completed''"
    "or_empty (To ringing_status) = ''+15553334444''"
    by (simp_all add: ringing_status_def no_fields_def truthy_def or_empty_def)
  from routed_messages_per_event[OF ok2] t2
  have "\<exists>ms rows m.
          emitted (snd (incomingCallNotification scenario_env ringing_status empty_world)) =
            emitted empty_world @ ms \<and>
          did_rows scenario_env ''+15553334444'' = Inr rows \<and> ms = [m] \<and>
          (case user_assigned (case rows of [] \<Rightarrow> None | r # rest \<Rightarrow> Some r) of
             Inl err \<Rightarrow> False
           | Inr (Some u) \<Rightarrow> channel m = ''user-call-status-'' @ template (assigned_user u)
           | Inr None \<Rightarrow> channel m = ''call-status-update'')"
    by auto
  then have s: "\<exists>m. emitted (snd (incomingCallNotification scenario_env ringing_status
        empty_world)) = [m] \<and> channel m = ''user-call-status-jdoe''"
    by (auto simp add: scenario_env_def empty_world_def user_assigned_def toLowerCase_def
        lower_char_def template_def)
  from ok j ok2 s show ?thesis by blast
qed

text \<open>
  C6 as stated fails: the join event of the scenario is handled successfully and publishes
  two messages, one on \<open>outbound-call-status\<close> and one on \<open>user-notification-jdoe\<close>.
\<close>

theorem join_publishes_two_messages:
  "fst (incomingCallNotification scenario_env join_event empty_world) = Inr ()
   \<and> emitted empty_world = []
   \<and> length (emitted (snd (incomingCallNotification scenario_env join_event empty_world))) = 2
   \<and> map channel (emitted (snd (incomingCallNotification scenario_env join_event empty_world))) =
       [''outbound-call-status'', ''user-notification-jdoe'']"
  by (simp add: scenario_run join_event_def scenario_env_def)


text \<open>
  A ring-group lookup is made only after the assigned-user lookup of the same number
  returned without an assigned row.
\<close>

lemma ring_lookup_only_when_unresolved:
  assumes ls: "lookups (snd (incomingCallNotification e input w)) = lookups w @ new"
    and ring: "RingGroupLookup n \<in> set new"
  shows "\<exists>rows. did_rows e n = Inr rows \<and>
           user_assigned (case rows of [] \<Rightarrow> None | r # rest \<Rightarrow> Some r) = Inr None"
proof (cases rule: incomingCallNotification_branches[of input e w])
  case join
  from refl[of "participant_join e input w"] show ?thesis
  proof (cases rule: participant_join_outcome)
    case stopped_early
    with ls ring join show ?thesis by (auto simp add: snd_rethrow_as)
  next
    case (lead_failed pr)
    with ls ring join show ?thesis by (auto simp add: snd_rethrow_as)
  next
    case (user_failed pr)
    with ls ring join show ?thesis by (auto simp add: snd_rethrow_as)
  next
    case (to_user pr rows u ls')
    with ls ring join show ?thesis by (auto simp add: snd_rethrow_as)
  next
    case (ring_failed pr rows)
    with ls ring join show ?thesis by (auto simp add: snd_rethrow_as)
  next
    case (to_ring_or_queue pr rows gs m)
    with ls ring join show ?thesis by (auto simp add: snd_rethrow_as)
  qed
next
  case leave
  with ls ring show ?thesis by auto
next
  case ended
  with ls ring show ?thesis by auto
next
  case unhandled
  with ls ring show ?thesis by auto
next
  case status
  from refl[of "status_update_branch e input w"] show ?thesis
  proof (cases rule: status_update_outcome)
    case suppressed
    with ls ring status show ?thesis by (auto simp add: snd_rethrow_as)
  next
    case user_failed
    with ls ring status show ?thesis by (auto simp add: snd_rethrow_as)
  next
    case (to_user rows u)
    with ls ring status show ?thesis by (auto simp add: snd_rethrow_as)
  next
    case (to_queue rows)
    with ls ring status show ?thesis by (auto simp add: snd_rethrow_as)
  qed
next
  case unrecognized
  with ls ring show ?thesis by auto
qed

lemma join_assigned_user_run:
  assumes "StatusCallbackEvent input = Some ''participant-join''"
    and "fetch_call e (CallSid input) = Inr pr"
    and "logs_failure e = None"
    and "lead_rows e (c_from pr) = Inr ls"
    and "did_rows e (c_to pr) = Inr (u # us)"
    and "status u = Some s" and "toLowerCase s = ''assigned''"
    and "ring_rows e (c_to pr) = Inr (g # gs)"
  shows "fst (incomingCallNotification e input w) = Inr ()
     \<and> emitted (snd (incomingCallNotification e input w)) = emitted w @
         [Emit ''outbound-call-status''
            [(''callSid'', Str (c_sid pr)), (''status'', Str (c_status pr)),
             (''from'', Str (c_from pr)), (''to'', Str (c_to pr))],
          Emit (''user-notification-'' @ template (assigned_user u))
            [(''conferenceSid'', js (ConferenceSid input)),
             (''callSid'', js (CallSid input)),
             (''from'', Str (c_from pr)),
             (''to'', Str (or_empty (To input))),
             (''leadData'', lead_data (case ls of [] \<Rightarrow> None | r # rest \<Rightarrow> Some r))]]
     \<and> lookups (snd (incomingCallNotification e input w)) =
         lookups w @ [LeadLookup (c_from pr), UserLookup (c_to pr)]"
  using assms
  by (simp add: incomingCallNotification_def participant_join_def rethrow_as_def emit_def
      or_empty_def truthy_def andThen_def logs_logCallStatus findLeadByPhoneNumber_def
      findUserByPhoneNumber_def user_assigned_def Let_def)

text \<open>
  C4. For a \<open>participant-join\<close> event whose callee number has both a \<open>did_numbers\<close> row
  with status \<open>assigned\<close> (in any letter case) and a \<open>ring_groups\<close> row, the notification
  goes to the assigned user's channel \<open>user-notification-{assigned_user}\<close>; nothing is
  published on \<open>ring-group-notification\<close>, and the lookups of the run are the lead lookup
  and the assigned-user lookup. In every run, a ring-group lookup of a number is made only
  when the assigned-user lookup of that number returned and did not resolve.
\<close>

theorem join_prefers_assigned_user:
  "(StatusCallbackEvent input = Some ''participant-join''
      \<and> fetch_call e (CallSid input) = Inr pr
      \<and> logs_failure e = None
      \<and> lead_rows e (c_from pr) = Inr ls
      \<and> did_rows e (c_to pr) = Inr (u # us)
      \<and> status u = Some s \<and> toLowerCase s = ''assigned''
      \<and> ring_rows e (c_to pr) = Inr (g # gs)
    \<longrightarrow>
      fst (incomingCallNotification e input w) = Inr ()
      \<and> emitted (snd (incomingCallNotification e input w)) = emitted w @
          [Emit ''outbound-call-status''
             [(''callSid'', Str (c_sid pr)), (''status'', Str (c_status pr)),
              (''from'', Str (c_from pr)), (''to'', Str (c_to pr))],
           Emit (''user-notification-'' @ template (assigned_user u))
             [(''conferenceSid'', js (ConferenceSid input)),
              (''callSid'', js (CallSid input)),
              (''from'', Str (c_from pr)),
              (''to'', Str (or_empty (To input))),
              (''leadData'', lead_data (case ls of [] \<Rightarrow> None | r # rest \<Rightarrow> Some r))]]
      \<and> lookups (snd (incomingCallNotification e input w)) =
          lookups w @ [LeadLookup (c_from pr), UserLookup (c_to pr)])
   \<and> (lookups (snd (incomingCallNotification e input w)) = lookups w @ new
        \<and> RingGroupLookup n \<in> set new
      \<longrightarrow>
        (\<exists>rows. did_rows e n = Inr rows \<and>
           user_assigned (case rows of [] \<Rightarrow> None | r # rest \<Rightarrow> Some r) = Inr None))"
  using join_assigned_user_run[of input e pr ls u us s g gs w]
    ring_lookup_only_when_unresolved[of e input w new n]
  by blast

lemma join_unassigned_run:
  "lookups (snd (incomingCallNotification env_unassigned join_event empty_world)) =
     [LeadLookup ''+15551112222'', UserLookup ''+15553334444'',
      RingGroupLookup ''+15553334444'']
   \<and> map channel (emitted (snd (incomingCallNotification env_unassigned join_event empty_world))) =
     [''outbound-call-status'', ''ring-group-notification'']"
  by (simp add: scenario_run join_event_def env_unassigned_def scenario_env_def)

text \<open>
  The theorem at the scenario, where \<open>+15553334444\<close> is assigned to \<open>jdoe\<close> with status
  \<open>Assigned\<close> and is also a ring group's number; and at the same event when no number is
  assigned, where the ring group is looked up.
\<close>

theorem join_prefers_assigned_user_witness:
  "StatusCallbackEvent join_event = Some ''participant-join''
   \<and> toLowerCase ''Assigned'' = ''assigned''
   \<and> fst (incomingCallNotification scenario_env join_event empty_world) = Inr ()
   \<and> emitted (snd (incomingCallNotification scenario_env join_event empty_world)) =
       [Emit ''outbound-call-status''
          [(''callSid'', Str ''CA1''), (''status'', Str ''in-progress''),
           (''from'', Str ''+15551112222''), (''to'', Str ''+15553334444'')],
        Emit ''user-notification-jdoe''
          [(''conferenceSid'', Str ''CF1''), (''callSid'', Str ''CA1''),
           (''from'', Str ''+15551112222''), (''to'', Str ''+15553334444''),
           (''leadData'', Null)]]
   \<and> lookups (snd (incomingCallNotification scenario_env join_event empty_world)) =
       [LeadLookup ''+15551112222'', UserLookup ''+15553334444'']
   \<and> RingGroupLookup ''+15553334444''
        \<in> set (lookups (snd (incomingCallNotification env_unassigned join_event empty_world)))
   \<and> (\<exists>rows. did_rows env_unassigned ''+15553334444'' = Inr rows \<and>
         user_assigned (case rows of [] \<Rightarrow> None | r # rest \<Rightarrow> Some r) = Inr None)"
proof -
  have first: "fst (incomingCallNotification scenario_env join_event empty_world) = Inr ()
   \<and> emitted (snd (incomingCallNotification scenario_env join_event empty_world)) =
       [Emit ''outbound-call-status''
          [(''callSid'', Str ''CA1''), (''status'', Str ''in-progress''),
           (''from'', Str ''+15551112222''), (''to'', Str ''+15553334444'')],
        Emit ''user-notification-jdoe''
          [(''conferenceSid'', Str ''CF1''), (''callSid'', Str ''CA1''),
           (''from'', Str ''+15551112222''), (''to'', Str ''+15553334444''),
           (''leadData'', Null)]]
   \<and> lookups (snd (incomingCallNotification scenario_env join_event empty_world)) =
       [LeadLookup ''+15551112222'', UserLookup ''+15553334444'']"
    using join_prefers_assigned_user
      [of join_event scenario_env
        "\<lparr>c_sid = ''CA1'', c_status = ''in-progress'', c_from = ''+15551112222'',
          c_to = ''+15553334444''\<rparr>"
        "[]"
        "\<lparr>phone_number = ''+15553334444'', status = Some ''Assigned'',
          assigned_user = Some ''jdoe''\<rparr>"
        "[]" "''Assigned''"
        "\<lparr>rg_phone_number = ''+15553334444'', ring_group = Some ''sales'',
          display_name = Some ''Sales''\<rparr>"
        "[]" empty_world "[]" "''+15553334444''"]
    by (simp add: join_event_def no_fields_def scenario_env_def empty_world_def
        toLowerCase_def lower_char_def template_def js_def lead_data_def or_empty_def)
  have l: "lookups (snd (incomingCallNotification env_unassigned join_event empty_world)) =
     lookups empty_world @ [LeadLookup ''+15551112222'', UserLookup ''+15553334444'',
      RingGroupLookup ''+15553334444'']"
    using join_unassigned_run by (simp add: empty_world_def)
  have m: "RingGroupLookup ''+15553334444'' \<in> set [LeadLookup ''+15551112222'',
      UserLookup ''+15553334444'', RingGroupLookup ''+15553334444'']"
    by simp
  from join_prefers_assigned_user
      [of join_event env_unassigned _ _ _ _ _ _ _ empty_world
        "[LeadLookup ''+15551112222'', UserLookup ''+15553334444'',
          RingGroupLookup ''+15553334444'']" "''+15553334444''"] l m
  have second: "\<exists>rows. did_rows env_unassigned ''+15553334444'' = Inr rows \<and>
         user_assigned (case rows of [] \<Rightarrow> None | r # rest \<Rightarrow> Some r) = Inr None"
    by blast
  have ev: "StatusCallbackEvent join_event = Some ''participant-join''"
    by (simp add: join_event_def no_fields_def)
  have lc: "toLowerCase ''Assigned'' = ''assigned''"
    by (simp add: toLowerCase_def lower_char_def)
  from l have mem: "RingGroupLookup ''+15553334444''
        \<in> set (lookups (snd (incomingCallNotification env_unassigned join_event empty_world)))"
    by simp
  from ev lc first mem second show ?thesis by blast
qed

end
